theory Spec2Isabelle
  imports Complex_Main "HOL-Library.Word" "HOL-Library.Sublist"
begin

section \<open>JavaScript values\<close>

text \<open>
  A thrown \<^verbatim>\<open>Error\<close> object carries the two properties the code reads: its
  \<^verbatim>\<open>name\<close> (the cron job dispatches on it) and its \<^verbatim>\<open>message\<close>.
  \<^verbatim>\<open>new Error(m)\<close> has the name \<^verbatim>\<open>Error\<close>.

  A JavaScript string is represented by the bytes of its UTF-8 text (\<^typ>\<open>string\<close>), a
  \<^verbatim>\<open>number\<close> by a \<^typ>\<open>real\<close>, a \<^verbatim>\<open>Buffer\<close> by a list of 8-bit words. A string
  that is not well-formed Unicode (one with a lone surrogate) has no UTF-8 text and is
  not represented; the API keys the registration flow admits are ASCII.
\<close>

datatype js_error = Thrown (err_name: string) (err_message: string)

definition new_Error :: "string \<Rightarrow> js_error" where
  "new_Error m = Thrown ''Error'' m"

type_synonym byte = "8 word"
type_synonym buffer = "byte list"

text \<open>Truthiness of \<^verbatim>\<open>string | null | undefined\<close>, and the operator \<^verbatim>\<open>||\<close> on it.\<close>

fun truthy :: "string option \<Rightarrow> bool" where
  "truthy None = False"
| "truthy (Some s) = (s \<noteq> [])"

definition js_or :: "string option \<Rightarrow> string option \<Rightarrow> string option" where
  "js_or a b = (if truthy a then a else b)"

text \<open>\<^verbatim>\<open>String.prototype.split\<close> with a one-character separator: the empty string
  splits into one empty field.\<close>

fun split_on :: "char \<Rightarrow> string \<Rightarrow> string list" where
  "split_on sep [] = [[]]"
| "split_on sep (c # cs) =
     (if c = sep then [] # split_on sep cs
      else (case split_on sep cs of [] \<Rightarrow> [[c]] | p # ps \<Rightarrow> (c # p) # ps))"

text \<open>\<^verbatim>\<open>String.prototype.includes\<close>.\<close>

fun str_includes :: "string \<Rightarrow> string \<Rightarrow> bool" where
  "str_includes [] needle = (needle = [])"
| "str_includes (c # cs) needle = (take (length needle) (c # cs) = needle \<or> str_includes cs needle)"

text \<open>
  \<^verbatim>\<open>String.prototype.trim\<close> strips white space and line terminators from both ends.
  In UTF-8 these are one byte (U+0009 to U+000D, U+0020), two bytes (U+00A0) or three
  bytes (U+1680, U+2000 to U+200A, U+2028, U+2029, U+202F, U+205F, U+3000, U+FEFF).
\<close>

definition is_space1 :: "char \<Rightarrow> bool" where
  "is_space1 a = (of_char a \<in> {9, 10, 11, 12, 13, 32 :: nat})"

definition is_space2 :: "char \<Rightarrow> char \<Rightarrow> bool" where
  "is_space2 a b = (of_char a = (194 :: nat) \<and> of_char b = (160 :: nat))"

definition is_space3 :: "char \<Rightarrow> char \<Rightarrow> char \<Rightarrow> bool" where
  "is_space3 a b c =
     (let x = of_char a :: nat; y = of_char b :: nat; z = of_char c :: nat in
      (x = 225 \<and> y = 154 \<and> z = 128) \<or>
      (x = 226 \<and> y = 128 \<and> (128 \<le> z \<and> z \<le> 138 \<or> z = 168 \<or> z = 169 \<or> z = 175)) \<or>
      (x = 226 \<and> y = 129 \<and> z = 159) \<or>
      (x = 227 \<and> y = 128 \<and> z = 128) \<or>
      (x = 239 \<and> y = 187 \<and> z = 191))"

fun trim_start :: "string \<Rightarrow> string" where
  "trim_start (a # b # c # rest) =
     (if is_space1 a then trim_start (b # c # rest)
      else if is_space2 a b then trim_start (c # rest)
      else if is_space3 a b c then trim_start rest
      else a # b # c # rest)"
| "trim_start [a, b] =
     (if is_space1 a then trim_start [b] else if is_space2 a b then [] else [a, b])"
| "trim_start [a] = (if is_space1 a then [] else [a])"
| "trim_start [] = []"

text \<open>The same from the end, on the reversed string.\<close>

fun trim_reversed :: "string \<Rightarrow> string" where
  "trim_reversed (c # b # a # rest) =
     (if is_space1 c then trim_reversed (b # a # rest)
      else if is_space2 b c then trim_reversed (a # rest)
      else if is_space3 a b c then trim_reversed rest
      else c # b # a # rest)"
| "trim_reversed [c, b] =
     (if is_space1 c then trim_reversed [b] else if is_space2 b c then [] else [c, b])"
| "trim_reversed [c] = (if is_space1 c then [] else [c])"
| "trim_reversed [] = []"

definition js_trim :: "string \<Rightarrow> string" where
  "js_trim s = rev (trim_reversed (rev (trim_start s)))"

text \<open>
  The \<^verbatim>\<open>length\<close> of a string counts UTF-16 code units: one for every character of
  one to three bytes, two for a character of four bytes. Continuation bytes (128 to 191)
  count nothing, a leading byte counts one, a leading byte of a four-byte character
  (240 and above) one more.
\<close>

definition utf16_length :: "string \<Rightarrow> nat" where
  "utf16_length s =
     length (filter (\<lambda>c. \<not> (128 \<le> (of_char c :: nat) \<and> (of_char c :: nat) < 192)) s) +
     length (filter (\<lambda>c. 240 \<le> (of_char c :: nat)) s)"

text \<open>The decimal text of a number in a template string.\<close>

fun digit_char :: "nat \<Rightarrow> char" where
  "digit_char n = char_of (48 + n)"

function string_of_nat :: "nat \<Rightarrow> string" where
  "string_of_nat n = (if n < 10 then [digit_char n] else string_of_nat (n div 10) @ [digit_char (n mod 10)])"
  by pat_completeness auto
termination
  by (relation "measure (\<lambda>n. n)") auto

subsection \<open>Hexadecimal text of a buffer\<close>

text \<open>
  \<^verbatim>\<open>buf.toString('hex')\<close> writes two lower-case digits per byte.
  \<^verbatim>\<open>Buffer.from(s, 'hex')\<close> reads pairs of digits (either case) and stops, without
  an error, at the first pair that is not hexadecimal or at a single trailing character.
  The conversions \<^verbatim>\<open>'utf8'\<close> between a string and its bytes relabel the bytes.
\<close>

definition hex_digit :: "nat \<Rightarrow> char" where
  "hex_digit n = (if n < 10 then char_of (48 + n) else char_of (87 + n))"

definition hex_value :: "char \<Rightarrow> nat option" where
  "hex_value c =
     (let n = of_char c :: nat in
      if 48 \<le> n \<and> n \<le> 57 then Some (n - 48)
      else if 97 \<le> n \<and> n \<le> 102 then Some (n - 87)
      else if 65 \<le> n \<and> n \<le> 70 then Some (n - 55)
      else None)"

definition hex_byte :: "byte \<Rightarrow> string" where
  "hex_byte b = [hex_digit (unat b div 16), hex_digit (unat b mod 16)]"

definition toString_hex :: "buffer \<Rightarrow> string" where
  "toString_hex buf = concat (map hex_byte buf)"

fun Buffer_from_hex :: "string \<Rightarrow> buffer" where
  "Buffer_from_hex (a # b # rest) =
     (case hex_value a of
        None \<Rightarrow> []
      | Some h \<Rightarrow> (case hex_value b of
                    None \<Rightarrow> []
                  | Some l \<Rightarrow> of_nat (16 * h + l) # Buffer_from_hex rest))"
| "Buffer_from_hex [a] = []"
| "Buffer_from_hex [] = []"

definition utf8_bytes :: "string \<Rightarrow> buffer" where
  "utf8_bytes s = map (\<lambda>c. of_nat (of_char c)) s"

definition utf8_string :: "buffer \<Rightarrow> string" where
  "utf8_string buf = map (\<lambda>b. char_of (unat b)) buf"

section \<open>The environment and the stored data\<close>

subsection \<open>The database rows (\<^verbatim>\<open>db.ts\<close> and the schema)\<close>

record Startup =
  st_id :: nat
  st_name :: string
  website_url :: "string option"
  founder_username :: "string option"
  app_store_id :: "string option"
  st_created_at :: nat
  st_updated_at :: nat

record RevenueMetrics =
  rm_id :: nat
  rm_startup_id :: nat
  total_revenue :: real
  rm_mrr :: real
  last_updated :: nat

record ApiKey =
  ak_id :: nat
  ak_startup_id :: nat
  revenuecat_api_key :: string
  revenuecat_project_id :: "string option"
  ak_created_at :: nat

text \<open>A row of \<^verbatim>\<open>getStartupsWithApiKeys\<close>.\<close>

record startup_with_key =
  startup_id :: nat
  encrypted_api_key :: string
  project_id :: "string option"

text \<open>
  The mutable world: the three tables with their \<^verbatim>\<open>SERIAL\<close> sequences (the next
  id each hands out), and two logs that record effects which leave no other trace: the
  calls of the metrics adapter (API key and project id) and the number of draws from
  \<^verbatim>\<open>crypto.randomBytes\<close>.
\<close>

record world =
  startups :: "Startup list"
  api_keys :: "ApiKey list"
  revenue_metrics :: "RevenueMetrics list"
  startups_id_seq :: nat
  api_keys_id_seq :: nat
  revenue_metrics_id_seq :: nat
  adapter_calls :: "(string \<times> string) list"
  rng_calls :: nat

subsection \<open>The RevenueCat interface (\<^verbatim>\<open>revenuecat.ts\<close>)\<close>

record RevenueCatMetric =
  metric_id :: string
  metric_name :: string
  metric_value :: real
  metric_unit :: string
  metric_period :: string
  metric_description :: string
  metric_object :: string
  metric_last_updated_at :: "string option"
  metric_last_updated_at_iso8601 :: "string option"

record RevenueCatOverviewMetrics =
  overview_object :: string
  metrics :: "RevenueCatMetric list"

record ParsedMetrics =
  mrr :: real
  revenue :: real

text \<open>
  What \<^verbatim>\<open>response.json()\<close> gives for a 2xx answer: it rejects with a
  \<^verbatim>\<open>SyntaxError\<close> on a body that is not JSON; a JSON value without a
  \<^verbatim>\<open>metrics\<close> array makes \<^verbatim>\<open>data.metrics.find\<close> raise a \<^verbatim>\<open>TypeError\<close>;
  otherwise it is an overview.
\<close>

datatype json_body =
    NotJson string
  | NotOverview string
  | Overview RevenueCatOverviewMetrics

text \<open>
  What \<^verbatim>\<open>JSON.parse(errorText)\<close> gives for an error answer, as far as the code
  reads it. It raises on a text that is not JSON; it may give \<^verbatim>\<open>null\<close>, on which
  reading a property raises; every other value has the two properties \<^verbatim>\<open>message\<close>
  and \<^verbatim>\<open>error\<close> (both absent on a number, a string or a boolean). A property is
  absent, a string, another falsy value (\<^verbatim>\<open>null\<close>, \<^verbatim>\<open>false\<close>, \<^verbatim>\<open>0\<close>), an array
  (of which the code can only ask whether it includes the string
  \<^verbatim>\<open>Invalid API key\<close>), or another truthy value (an object, a number,
  \<^verbatim>\<open>true\<close>), which has no method \<^verbatim>\<open>includes\<close>.
\<close>

datatype error_field =
    NoField
  | StringField string
  | FalsyField
  | ArrayField bool
  | OtherField

record error_body =
  eb_message :: error_field
  eb_error :: error_field

datatype parsed_error = NotParsed | ParsedNull | Parsed error_body

record fetch_response =
  status :: nat
  statusText :: string
  body_text :: string
  body_parsed :: parsed_error
  body_json :: json_body

datatype fetch_outcome = NetworkFailure string | Responded fetch_response

subsection \<open>Requests to the datastore\<close>

datatype db_request =
    CountApiKeysByProjectId string
  | InsertStartup string "string option" "string option" "string option"
  | UpsertApiKey nat string "string option"
  | SelectApiKeys
  | UpsertRevenueMetrics nat real real
  | DeleteStartup nat

subsection \<open>Input validation (\<^verbatim>\<open>validation.ts\<close>)\<close>

text \<open>A field of the request body is \<^verbatim>\<open>unknown\<close>: absent, a string, or another
  JSON value, of which only the truthiness is read.\<close>

datatype js_value = JsUndefined | JsString string | JsOther bool

fun truthy_value :: "js_value \<Rightarrow> bool" where
  "truthy_value JsUndefined = False"
| "truthy_value (JsString s) = (s \<noteq> [])"
| "truthy_value (JsOther b) = b"

record validation =
  valid :: bool
  v_value :: string
  v_error :: "string option"

subsection \<open>The environment\<close>

text \<open>
  Everything the code reads and does not own is a field of the environment: the two
  configuration mechanisms, Node's \<^verbatim>\<open>crypto\<close> primitives (PBKDF2, the AES-256-GCM
  cipher as one function from key, IV and plaintext to ciphertext and tag; the message
  with which \<^verbatim>\<open>createDecipheriv\<close> or \<^verbatim>\<open>setAuthTag\<close> refuses the key, the IV or
  the tag, if one does; and the decipher as one function from key, IV, tag and decoded
  ciphertext to the plaintext, which fails with a message when the IV or tag is refused
  or the tag does not verify), the random source (indexed by the number of earlier draws), the answer
  of the RevenueCat API to a request (URL and bearer token), the failure of a datastore
  request (the message of Supabase's error, if any), the clock, and the input
  validators of \<^verbatim>\<open>validation.ts\<close>. During one request to an endpoint the
  environment answers equal requests equally, and the clock stands still.
\<close>

record env =
  import_meta_env :: "(string \<rightharpoonup> string) option"
  process_env :: "string \<rightharpoonup> string"
  pbkdf2Sync :: "string \<Rightarrow> buffer \<Rightarrow> nat \<Rightarrow> nat \<Rightarrow> string \<Rightarrow> buffer"
  cipheriv :: "string \<Rightarrow> buffer \<Rightarrow> buffer \<Rightarrow> buffer \<Rightarrow> buffer \<times> buffer"
  decipher_setup :: "string \<Rightarrow> buffer \<Rightarrow> buffer \<Rightarrow> buffer \<Rightarrow> string option"
  decipheriv :: "string \<Rightarrow> buffer \<Rightarrow> buffer \<Rightarrow> buffer \<Rightarrow> buffer \<Rightarrow> string + buffer"
  random_source :: "nat \<Rightarrow> nat \<Rightarrow> buffer"
  http_fetch :: "string \<Rightarrow> string \<Rightarrow> fetch_outcome"
  supabase_error :: "db_request \<Rightarrow> string option"
  date_now :: nat
  validateName :: "js_value \<Rightarrow> validation"
  validateUrl :: "js_value \<Rightarrow> validation"
  validateUsername :: "js_value \<Rightarrow> validation"
  validateAppStoreId :: "js_value \<Rightarrow> validation"
  validateProjectId :: "js_value \<Rightarrow> validation"
  validateApiKey :: "js_value \<Rightarrow> validation"

section \<open>The credential cipher (\<^verbatim>\<open>encryption.ts\<close>)\<close>

text \<open>
  \<^verbatim>\<open>getEncryptionKey\<close> prefers Astro's \<^verbatim>\<open>import.meta.env\<close> and falls back to
  \<^verbatim>\<open>process.env\<close>; a missing or empty key raises.
\<close>

definition getEncryptionKey :: "env \<Rightarrow> js_error + string" where
  "getEncryptionKey e =
     (let fromAstro = (case import_meta_env e of Some m \<Rightarrow> m ''ENCRYPTION_KEY'' | None \<Rightarrow> None);
          fromProcess = process_env e ''ENCRYPTION_KEY'';
          key = js_or fromAstro fromProcess
      in case key of
           None \<Rightarrow> Inl (new_Error ''ENCRYPTION_KEY is not set in environment variables'')
         | Some k \<Rightarrow>
             if k = [] then Inl (new_Error ''ENCRYPTION_KEY is not set in environment variables'')
             else Inr k)"

definition ALGORITHM :: string where
  "ALGORITHM = ''aes-256-gcm''"

definition IV_LENGTH :: nat where
  "IV_LENGTH = 16"

definition SALT_LENGTH :: nat where
  "SALT_LENGTH = 64"

definition TAG_LENGTH :: nat where
  "TAG_LENGTH = 16"

definition deriveKey :: "env \<Rightarrow> string \<Rightarrow> buffer \<Rightarrow> buffer" where
  "deriveKey e password salt = pbkdf2Sync e password salt 100000 32 ''sha512''"

definition randomBytes :: "env \<Rightarrow> world \<Rightarrow> nat \<Rightarrow> buffer \<times> world" where
  "randomBytes e w n = (random_source e (rng_calls w) n, w\<lparr>rng_calls := rng_calls w + 1\<rparr>)"

text \<open>
  \<^verbatim>\<open>encryptApiKey\<close>: the salt is drawn first, then the key is read and derived, then
  the IV is drawn. Whatever is raised inside is raised again as
  \<^verbatim>\<open>Failed to encrypt API key: ...\<close>.
\<close>

definition encryptApiKey :: "env \<Rightarrow> world \<Rightarrow> string \<Rightarrow> (js_error + string) \<times> world" where
  "encryptApiKey e w apiKey =
     (case randomBytes e w SALT_LENGTH of
        (salt, w1) \<Rightarrow>
          (case getEncryptionKey e of
             Inl err \<Rightarrow> (Inl (new_Error (''Failed to encrypt API key: '' @ err_message err)), w1)
           | Inr password \<Rightarrow>
               (let key = deriveKey e password salt in
                case randomBytes e w1 IV_LENGTH of
                  (iv, w2) \<Rightarrow>
                    (case cipheriv e ALGORITHM key iv (utf8_bytes apiKey) of
                       (ciphertext, tag) \<Rightarrow>
                         (let encrypted = toString_hex ciphertext in
                          (Inr (toString_hex salt @ '':'' @ toString_hex iv @ '':'' @
                                toString_hex tag @ '':'' @ encrypted), w2))))))"

text \<open>
  \<^verbatim>\<open>decryptApiKey\<close>: the field count is checked before anything else, the key is
  read after the three buffers are decoded. The fourth field stays a string and is
  handed to \<^verbatim>\<open>decipher.update(encrypted, 'hex', 'utf8')\<close>, which refuses a string of
  odd length before it decodes anything; by then \<^verbatim>\<open>createDecipheriv\<close> and
  \<^verbatim>\<open>setAuthTag\<close> have had their chance to raise. Whatever is raised inside is raised
  again as \<^verbatim>\<open>Failed to decrypt API key: ...\<close>.
\<close>

definition odd_length_message :: "nat \<Rightarrow> string" where
  "odd_length_message n =
     ''The argument 'encoding' is invalid for data of length '' @ string_of_nat n @
     ''. Received 'hex'' @ [CHR 0x27]"

definition decryptApiKey :: "env \<Rightarrow> string \<Rightarrow> js_error + string" where
  "decryptApiKey e encryptedApiKey =
     (let parts = split_on CHR '':'' encryptedApiKey in
      if length parts \<noteq> 4 then
        Inl (new_Error (''Failed to decrypt API key: '' @ ''Invalid encrypted API key format''))
      else
        (let salt = Buffer_from_hex (parts ! 0);
             iv = Buffer_from_hex (parts ! 1);
             tag = Buffer_from_hex (parts ! 2);
             encrypted = parts ! 3
         in case getEncryptionKey e of
              Inl err \<Rightarrow> Inl (new_Error (''Failed to decrypt API key: '' @ err_message err))
            | Inr password \<Rightarrow>
                (let key = deriveKey e password salt in
                 if odd (utf16_length encrypted) then
                   (case decipher_setup e ALGORITHM key iv tag of
                      Some m \<Rightarrow> Inl (new_Error (''Failed to decrypt API key: '' @ m))
                    | None \<Rightarrow>
                        Inl (new_Error (''Failed to decrypt API key: '' @
                                        odd_length_message (utf16_length encrypted))))
                 else
                   (case decipheriv e ALGORITHM key iv tag (Buffer_from_hex encrypted) of
                      Inl m \<Rightarrow> Inl (new_Error (''Failed to decrypt API key: '' @ m))
                    | Inr decrypted \<Rightarrow> Inr (utf8_string decrypted)))))"

section \<open>The metrics source adapter (\<^verbatim>\<open>revenuecat.ts\<close>)\<close>

definition response_ok :: "fetch_response \<Rightarrow> bool" where
  "response_ok r = (200 \<le> status r \<and> status r \<le> 299)"

text \<open>\<^verbatim>\<open>x?.value || 0\<close> on the result of \<^verbatim>\<open>find\<close>.\<close>

definition value_or_0 :: "RevenueCatMetric option \<Rightarrow> real" where
  "value_or_0 m = (case m of None \<Rightarrow> 0 | Some x \<Rightarrow> if metric_value x = 0 then 0 else metric_value x)"

text \<open>
  The error body of an answer that is not 2xx: the parsed text, or
  \<^verbatim>\<open>{ message: errorText }\<close> when the text is not JSON. Reading \<^verbatim>\<open>message\<close> of
  \<^verbatim>\<open>null\<close> raises.
\<close>

definition error_body_of :: "fetch_response \<Rightarrow> js_error + error_body" where
  "error_body_of response =
     (case body_parsed response of
        NotParsed \<Rightarrow> Inr \<lparr>eb_message = StringField (body_text response), eb_error = NoField\<rparr>
      | ParsedNull \<Rightarrow>
          Inl (Thrown ''TypeError'' ''Cannot read properties of null (reading 'message')'')
      | Parsed b \<Rightarrow> Inr b)"

fun field_truthy :: "error_field \<Rightarrow> bool" where
  "field_truthy NoField = False"
| "field_truthy (StringField m) = (m \<noteq> [])"
| "field_truthy FalsyField = False"
| "field_truthy (ArrayField b) = True"
| "field_truthy OtherField = True"

text \<open>\<^verbatim>\<open>errorBody.message || errorBody.error || errorText\<close>.\<close>

definition error_message :: "string \<Rightarrow> error_body \<Rightarrow> error_field" where
  "error_message errorText errorBody =
     (if field_truthy (eb_message errorBody) then eb_message errorBody
      else if field_truthy (eb_error errorBody) then eb_error errorBody
      else StringField errorText)"

text \<open>
  \<^verbatim>\<open>errorMessage === 'Invalid API key.' || errorMessage.includes('Invalid API key')\<close>:
  a string is searched, an array is asked for the element, and every other value has no
  method \<^verbatim>\<open>includes\<close>.
\<close>

fun names_invalid_key :: "error_field \<Rightarrow> js_error + bool" where
  "names_invalid_key (StringField m) =
     Inr (m = ''Invalid API key.'' \<or> str_includes m ''Invalid API key'')"
| "names_invalid_key (ArrayField b) = Inr b"
| "names_invalid_key NoField =
     Inl (Thrown ''TypeError'' ''Cannot read properties of undefined (reading 'includes')'')"
| "names_invalid_key FalsyField =
     Inl (Thrown ''TypeError'' ''errorMessage.includes is not a function'')"
| "names_invalid_key OtherField =
     Inl (Thrown ''TypeError'' ''errorMessage.includes is not a function'')"

text \<open>
  \<^verbatim>\<open>fetchRevenueCatMetrics\<close>. The call is logged on entry. An answer that is not
  2xx raises \<^verbatim>\<open>InvalidApiKeyError\<close> exactly when the status is 401 and the error
  message (the body's \<^verbatim>\<open>message\<close>, else its \<^verbatim>\<open>error\<close>, else the text) contains
  \<^verbatim>\<open>Invalid API key\<close>; the test is not made at another status. Every other failure
  is an error of another name.
\<close>

definition fetchRevenueCatMetrics ::
  "env \<Rightarrow> world \<Rightarrow> string \<Rightarrow> string \<Rightarrow> (js_error + ParsedMetrics) \<times> world" where
  "fetchRevenueCatMetrics e w apiKey projectId =
     (let w1 = w\<lparr>adapter_calls := adapter_calls w @ [(apiKey, projectId)]\<rparr> in
      if projectId = [] then (Inl (new_Error ''Project ID is required''), w1)
      else
        (let baseUrl = ''https://api.revenuecat.com/v2'';
             url = baseUrl @ ''/projects/'' @ projectId @ ''/metrics/overview''
         in case http_fetch e url (''Bearer '' @ apiKey) of
              NetworkFailure m \<Rightarrow> (Inl (Thrown ''TypeError'' m), w1)
            | Responded response \<Rightarrow>
                if \<not> response_ok response then
                  (let errorText = body_text response;
                       api_error = new_Error (''RevenueCat API error: '' @
                              string_of_nat (status response) @ '' '' @ statusText response @
                              ''. '' @ errorText)
                   in case error_body_of response of
                        Inl err \<Rightarrow> (Inl err, w1)
                      | Inr errorBody \<Rightarrow>
                          (let errorMessage = error_message errorText errorBody in
                           if status response = 401 then
                             (case names_invalid_key errorMessage of
                                Inl err \<Rightarrow> (Inl err, w1)
                              | Inr invalid \<Rightarrow>
                                  if invalid
                                  then (Inl (Thrown ''InvalidApiKeyError'' ''Invalid API key''), w1)
                                  else (Inl api_error, w1))
                           else (Inl api_error, w1)))
                else
                  (case body_json response of
                     NotJson m \<Rightarrow> (Inl (Thrown ''SyntaxError'' m), w1)
                   | NotOverview m \<Rightarrow> (Inl (Thrown ''TypeError'' m), w1)
                   | Overview data \<Rightarrow>
                       (let mrrMetric = find (\<lambda>m. metric_id m = ''mrr'') (metrics data);
                            revenueMetric = find (\<lambda>m. metric_id m = ''revenue'') (metrics data)
                        in (Inr \<lparr>mrr = value_or_0 mrrMetric,
                                 revenue = value_or_0 revenueMetric\<rparr>, w1)))))"

definition validateRevenueCatApiKey :: "env \<Rightarrow> world \<Rightarrow> string \<Rightarrow> string \<Rightarrow> bool \<times> world" where
  "validateRevenueCatApiKey e w apiKey projectId =
     (case fetchRevenueCatMetrics e w apiKey projectId of
        (Inr m, w1) \<Rightarrow> (True, w1)
      | (Inl err, w1) \<Rightarrow> (False, w1))"

section \<open>The datastore operations (\<^verbatim>\<open>db.ts\<close>)\<close>

text \<open>
  Each operation first asks the environment whether Supabase reports an error for the
  request; if so it raises with the prefixed message and changes nothing. Otherwise it
  acts on the tables as the schema says: \<^verbatim>\<open>UNIQUE(startup_id)\<close> makes an upsert
  update the row of the startup or insert one, and \<^verbatim>\<open>ON DELETE CASCADE\<close> makes the
  deletion of a startup delete its API key and its metrics.
\<close>

definition isProjectIdTaken :: "env \<Rightarrow> world \<Rightarrow> string \<Rightarrow> js_error + bool" where
  "isProjectIdTaken e w projectId =
     (if projectId = [] then Inr False
      else
        (let normalized = js_trim projectId in
         if normalized = [] then Inr False
         else
           (case supabase_error e (CountApiKeysByProjectId normalized) of
              Some m \<Rightarrow> Inl (new_Error (''Failed to validate project ID uniqueness: '' @ m))
            | None \<Rightarrow>
                (let count = length (filter (\<lambda>row. revenuecat_project_id row = Some normalized)
                                            (api_keys w))
                 in Inr (count > 0)))))"

definition createStartup ::
  "env \<Rightarrow> world \<Rightarrow> string \<Rightarrow> string option \<Rightarrow> string option \<Rightarrow> string option \<Rightarrow>
   (js_error + Startup) \<times> world" where
  "createStartup e w name websiteUrl founderUsername appStoreId =
     (case supabase_error e (InsertStartup name websiteUrl founderUsername appStoreId) of
        Some m \<Rightarrow> (Inl (new_Error (''Failed to create startup: '' @ m)), w)
      | None \<Rightarrow>
          (let data = \<lparr>st_id = startups_id_seq w, st_name = name, website_url = websiteUrl,
                        founder_username = founderUsername, app_store_id = appStoreId,
                        st_created_at = date_now e, st_updated_at = date_now e\<rparr>
           in (Inr data, w\<lparr>startups := startups w @ [data],
                             startups_id_seq := startups_id_seq w + 1\<rparr>)))"

definition upsertApiKey ::
  "env \<Rightarrow> world \<Rightarrow> nat \<Rightarrow> string \<Rightarrow> string option \<Rightarrow> (js_error + unit) \<times> world" where
  "upsertApiKey e w startupId encryptedApiKey projectId =
     (let pid = (if truthy projectId then projectId else None) in
      case supabase_error e (UpsertApiKey startupId encryptedApiKey pid) of
        Some m \<Rightarrow> (Inl (new_Error (''Failed to upsert API key: '' @ m)), w)
      | None \<Rightarrow>
          (if \<exists>row \<in> set (api_keys w). ak_startup_id row = startupId then
             (Inr (), w\<lparr>api_keys :=
                map (\<lambda>row. if ak_startup_id row = startupId
                            then row\<lparr>revenuecat_api_key := encryptedApiKey,
                                     revenuecat_project_id := pid\<rparr>
                            else row) (api_keys w)\<rparr>)
           else
             (Inr (), w\<lparr>api_keys := api_keys w @
                [\<lparr>ak_id = api_keys_id_seq w, ak_startup_id = startupId,
                  revenuecat_api_key = encryptedApiKey, revenuecat_project_id = pid,
                  ak_created_at = date_now e\<rparr>],
                api_keys_id_seq := api_keys_id_seq w + 1\<rparr>)))"

definition getStartupsWithApiKeys :: "env \<Rightarrow> world \<Rightarrow> js_error + startup_with_key list" where
  "getStartupsWithApiKeys e w =
     (case supabase_error e SelectApiKeys of
        Some m \<Rightarrow> Inl (new_Error (''Failed to fetch API keys: '' @ m))
      | None \<Rightarrow>
          Inr (map (\<lambda>row. \<lparr>startup_id = ak_startup_id row,
                           encrypted_api_key = revenuecat_api_key row,
                           project_id = revenuecat_project_id row\<rparr>) (api_keys w)))"

definition upsertRevenueMetrics ::
  "env \<Rightarrow> world \<Rightarrow> nat \<Rightarrow> real \<Rightarrow> real \<Rightarrow> (js_error + unit) \<times> world" where
  "upsertRevenueMetrics e w startupId totalRevenue mrr_value =
     (case supabase_error e (UpsertRevenueMetrics startupId totalRevenue mrr_value) of
        Some m \<Rightarrow> (Inl (new_Error (''Failed to upsert revenue metrics: '' @ m)), w)
      | None \<Rightarrow>
          (if \<exists>row \<in> set (revenue_metrics w). rm_startup_id row = startupId then
             (Inr (), w\<lparr>revenue_metrics :=
                map (\<lambda>row. if rm_startup_id row = startupId
                            then row\<lparr>total_revenue := totalRevenue, rm_mrr := mrr_value,
                                     last_updated := date_now e\<rparr>
                            else row) (revenue_metrics w)\<rparr>)
           else
             (Inr (), w\<lparr>revenue_metrics := revenue_metrics w @
                [\<lparr>rm_id = revenue_metrics_id_seq w, rm_startup_id = startupId,
                  total_revenue = totalRevenue, rm_mrr = mrr_value,
                  last_updated = date_now e\<rparr>],
                revenue_metrics_id_seq := revenue_metrics_id_seq w + 1\<rparr>)))"

definition deleteStartup :: "env \<Rightarrow> world \<Rightarrow> nat \<Rightarrow> (js_error + unit) \<times> world" where
  "deleteStartup e w startupId =
     (case supabase_error e (DeleteStartup startupId) of
        Some m \<Rightarrow> (Inl (new_Error (''Failed to delete startup: '' @ m)), w)
      | None \<Rightarrow>
          (Inr (), w\<lparr>startups := filter (\<lambda>s. st_id s \<noteq> startupId) (startups w),
                      api_keys := filter (\<lambda>k. ak_startup_id k \<noteq> startupId) (api_keys w),
                      revenue_metrics :=
                        filter (\<lambda>m. rm_startup_id m \<noteq> startupId) (revenue_metrics w)\<rparr>))"

section \<open>The refresh job (\<^verbatim>\<open>cron/update-metrics.ts\<close>)\<close>

record update_error =
  ue_startup_id :: nat
  ue_error :: string

record results =
  success :: nat
  failed :: nat
  deleted :: nat
  errors :: "update_error list"

datatype cron_body =
    PlainText string
  | NoStartups string nat
  | UpdateCompleted string results
  | UpdateFailed string string

text \<open>The \<^verbatim>\<open>catch\<close> block of the loop body (lines 74 to 98).\<close>

definition handle_error ::
  "env \<Rightarrow> startup_with_key \<Rightarrow> js_error \<Rightarrow> world \<times> results \<Rightarrow> world \<times> results" where
  "handle_error e s err st =
     (case st of
        (w, r) \<Rightarrow>
          if err_name err = ''InvalidApiKeyError'' then
            (case deleteStartup e w (startup_id s) of
               (Inr u, w1) \<Rightarrow> (w1, r\<lparr>deleted := deleted r + 1\<rparr>)
             | (Inl deleteError, w1) \<Rightarrow>
                 (w1, r\<lparr>failed := failed r + 1,
                        errors := errors r @
                          [\<lparr>ue_startup_id = startup_id s,
                            ue_error = ''Failed to delete startup: '' @ err_message deleteError\<rparr>]\<rparr>))
          else
            (w, r\<lparr>failed := failed r + 1,
                  errors := errors r @
                    [\<lparr>ue_startup_id = startup_id s, ue_error = err_message err\<rparr>]\<rparr>))"

text \<open>
  The \<^verbatim>\<open>try\<close> block of the loop body (lines 53 to 73): it ends normally (after the
  \<^verbatim>\<open>continue\<close> of a startup without project id, or after a successful update) or
  with the error raised by the decryption, the adapter or the datastore.
\<close>

definition try_update ::
  "env \<Rightarrow> startup_with_key \<Rightarrow> world \<times> results \<Rightarrow> js_error option \<times> (world \<times> results)" where
  "try_update e s st =
     (case st of
        (w, r) \<Rightarrow>
          if \<not> truthy (project_id s) then
            (None, (w, r\<lparr>failed := failed r + 1,
                          errors := errors r @
                            [\<lparr>ue_startup_id = startup_id s, ue_error = ''Project ID is missing''\<rparr>]\<rparr>))
          else
            (case decryptApiKey e (encrypted_api_key s) of
               Inl err \<Rightarrow> (Some err, (w, r))
             | Inr apiKey \<Rightarrow>
                 (case fetchRevenueCatMetrics e w apiKey (the (project_id s)) of
                    (Inl err, w1) \<Rightarrow> (Some err, (w1, r))
                  | (Inr m, w1) \<Rightarrow>
                      (case upsertRevenueMetrics e w1 (startup_id s) (revenue m) (mrr m) of
                         (Inl err, w2) \<Rightarrow> (Some err, (w2, r))
                       | (Inr u, w2) \<Rightarrow> (None, (w2, r\<lparr>success := success r + 1\<rparr>))))))"

text \<open>The body of the loop (lines 52 to 99): one startup.\<close>

definition process_startup ::
  "env \<Rightarrow> startup_with_key \<Rightarrow> world \<times> results \<Rightarrow> world \<times> results" where
  "process_startup e s st =
     (case try_update e s st of
        (None, st1) \<Rightarrow> st1
      | (Some err, st1) \<Rightarrow> handle_error e s err st1)"

text \<open>The \<^verbatim>\<open>for ... of\<close> loop.\<close>

fun update_all :: "env \<Rightarrow> startup_with_key list \<Rightarrow> world \<times> results \<Rightarrow> world \<times> results" where
  "update_all e [] st = st"
| "update_all e (s # rest) st = update_all e rest (process_startup e s st)"

definition cron_secret :: "env \<Rightarrow> string option" where
  "cron_secret e =
     js_or (case import_meta_env e of Some m \<Rightarrow> m ''CRON_SECRET'' | None \<Rightarrow> None)
           (process_env e ''CRON_SECRET'')"

text \<open>The endpoint: the argument is the request's \<^verbatim>\<open>authorization\<close> header.\<close>

definition GET :: "env \<Rightarrow> world \<Rightarrow> string option \<Rightarrow> (nat \<times> cron_body) \<times> world" where
  "GET e w authHeader =
     (let cronSecret = cron_secret e in
      if \<not> truthy cronSecret then ((401, PlainText ''Unauthorized''), w)
      else if \<not> truthy authHeader \<or> authHeader \<noteq> Some (''Bearer '' @ the cronSecret) then
        ((401, PlainText ''Unauthorized''), w)
      else
        (case getStartupsWithApiKeys e w of
           Inl err \<Rightarrow> ((500, UpdateFailed ''Failed to update metrics'' (err_message err)), w)
         | Inr startupsWithKeys \<Rightarrow>
             if length startupsWithKeys = 0 then
               ((200, NoStartups ''No startups to update'' 0), w)
             else
               (case update_all e startupsWithKeys
                       (w, \<lparr>success = 0, failed = 0, deleted = 0, errors = []\<rparr>) of
                  (w1, r) \<Rightarrow> ((200, UpdateCompleted ''Metrics update completed'' r), w1))))"

section \<open>The registration flow (\<^verbatim>\<open>POST\<close> of the add-startup endpoint)\<close>

text \<open>
  The request as the handler reads it: the verdict of the rate limiter for the client,
  and the JSON body (or the message with which \<^verbatim>\<open>request.json()\<close> rejects).
\<close>

record RateLimitResult =
  allowed :: bool
  current :: nat
  limit :: nat
  resetAt :: nat
  retryAfter :: nat

record add_startup_body =
  b_name :: js_value
  b_websiteUrl :: js_value
  b_appStoreId :: js_value
  b_founderUsername :: js_value
  b_revenuecatApiKey :: js_value
  b_projectId :: js_value

record add_request =
  rateLimit :: RateLimitResult
  json_body :: "string + add_startup_body"

datatype add_body =
    TooManyRequests nat
  | ErrorOnly "string option"
  | StartupCreated nat string ParsedMetrics
  | AddFailed string string

text \<open>The outer \<^verbatim>\<open>catch\<close>: status 500, and the message only if it mentions the API.\<close>

definition add_failure :: "js_error \<Rightarrow> nat \<times> add_body" where
  "add_failure err =
     (let errorMessage = err_message err;
          safeMessage = (if str_includes errorMessage ''API'' then errorMessage
                         else ''Failed to add startup. Please try again.'')
      in (500, AddFailed ''Failed to add startup'' safeMessage))"

text \<open>An \<^verbatim>\<open>error\<close> property inside a template string.\<close>

definition error_text :: "string option \<Rightarrow> string" where
  "error_text err = (case err of Some m \<Rightarrow> m | None \<Rightarrow> ''undefined'')"

text \<open>Steps 5 and 6: fetch the first metrics, create the startup, encrypt and store the
  key, store the metrics.\<close>

definition create_records ::
  "env \<Rightarrow> world \<Rightarrow> string \<Rightarrow> string option \<Rightarrow> string option \<Rightarrow> string option \<Rightarrow>
   string \<Rightarrow> string \<Rightarrow> (nat \<times> add_body) \<times> world" where
  "create_records e w name validatedWebsiteUrl validatedUsername validatedAppStoreId apiKey projectId =
     (case fetchRevenueCatMetrics e w apiKey projectId of
        (Inl err, w1) \<Rightarrow> (add_failure err, w1)
      | (Inr m, w1) \<Rightarrow>
          (case createStartup e w1 name validatedWebsiteUrl validatedUsername validatedAppStoreId of
             (Inl err, w2) \<Rightarrow> (add_failure err, w2)
           | (Inr startup, w2) \<Rightarrow>
               (case encryptApiKey e w2 apiKey of
                  (Inl err, w3) \<Rightarrow> (add_failure err, w3)
                | (Inr encryptedApiKey, w3) \<Rightarrow>
                    (case upsertApiKey e w3 (st_id startup) encryptedApiKey (Some projectId) of
                       (Inl err, w4) \<Rightarrow> (add_failure err, w4)
                     | (Inr u, w4) \<Rightarrow>
                         (case upsertRevenueMetrics e w4 (st_id startup) (revenue m) (mrr m) of
                            (Inl err, w5) \<Rightarrow> (add_failure err, w5)
                          | (Inr u', w5) \<Rightarrow>
                              ((201, StartupCreated (st_id startup) (st_name startup) m), w5))))))"

text \<open>
  Step 3: the validations, in the order of the source. The three optional fields are
  validated only when they are truthy; the result holds the sanitized values.
\<close>

record validated_input =
  vi_name :: string
  vi_projectId :: string
  vi_apiKey :: string
  vi_websiteUrl :: "string option"
  vi_appStoreId :: "string option"
  vi_username :: "string option"

definition validate_inputs :: "env \<Rightarrow> add_startup_body \<Rightarrow> (nat \<times> add_body) + validated_input" where
  "validate_inputs e body =
     (let nameValidation = validateName e (b_name body);
          projectIdValidation = validateProjectId e (b_projectId body);
          apiKeyValidation = validateApiKey e (b_revenuecatApiKey body);
          urlValidation = validateUrl e (b_websiteUrl body);
          appStoreIdValidation = validateAppStoreId e (b_appStoreId body);
          usernameValidation = validateUsername e (b_founderUsername body);
          validatedWebsiteUrl =
            (if truthy_value (b_websiteUrl body) then Some (v_value urlValidation) else None);
          validatedAppStoreId =
            (if truthy_value (b_appStoreId body) then Some (v_value appStoreIdValidation)
             else None);
          validatedUsername =
            (if truthy_value (b_founderUsername body) then Some (v_value usernameValidation)
             else None)
      in
        if \<not> valid nameValidation then Inl (400, ErrorOnly (v_error nameValidation))
        else if \<not> valid projectIdValidation then
          Inl (400, ErrorOnly (v_error projectIdValidation))
        else if \<not> valid apiKeyValidation then
          Inl (400, ErrorOnly (v_error apiKeyValidation))
        else if truthy_value (b_websiteUrl body) \<and> \<not> valid urlValidation then
          Inl (400, ErrorOnly (Some (''Website: '' @ error_text (v_error urlValidation))))
        else if truthy_value (b_appStoreId body) \<and> \<not> valid appStoreIdValidation then
          Inl (400, ErrorOnly (Some (''App Store ID: '' @
                 error_text (v_error appStoreIdValidation))))
        else if truthy_value (b_founderUsername body) \<and> \<not> valid usernameValidation then
          Inl (400, ErrorOnly (Some (''Twitter username: '' @
                 error_text (v_error usernameValidation))))
        else if \<not> truthy validatedAppStoreId \<and> \<not> truthy validatedWebsiteUrl then
          Inl (400, ErrorOnly (Some
                 ''Either App Store ID or Website is required (at least one to fetch the app icon)''))
        else
          Inr \<lparr>vi_name = v_value nameValidation,
               vi_projectId = v_value projectIdValidation,
               vi_apiKey = v_value apiKeyValidation,
               vi_websiteUrl = validatedWebsiteUrl,
               vi_appStoreId = validatedAppStoreId,
               vi_username = validatedUsername\<rparr>)"

text \<open>
  The handler: rate limit (step 1), parse (step 2), validate (step 3), then the uniqueness
  of the project id and the check of the key against RevenueCat (step 4), and only then
  the creation of the records (step 5).
\<close>

definition POST :: "env \<Rightarrow> world \<Rightarrow> add_request \<Rightarrow> (nat \<times> add_body) \<times> world" where
  "POST e w request =
     (if \<not> allowed (rateLimit request) then
        ((429, TooManyRequests (retryAfter (rateLimit request))), w)
      else
        (case json_body request of
           Inl m \<Rightarrow> (add_failure (Thrown ''SyntaxError'' m), w)
         | Inr body \<Rightarrow>
             (case validate_inputs e body of
                Inl response \<Rightarrow> (response, w)
              | Inr input \<Rightarrow>
                  (case isProjectIdTaken e w (vi_projectId input) of
                     Inl err \<Rightarrow> (add_failure err, w)
                   | Inr taken \<Rightarrow>
                       if taken then
                         ((409, ErrorOnly (Some ''This RevenueCat project ID is already registered.'')), w)
                       else
                         (case validateRevenueCatApiKey e w (vi_apiKey input) (vi_projectId input) of
                            (isValid, w1) \<Rightarrow>
                              if \<not> isValid then
                                ((400, ErrorOnly (Some
                                    ''Invalid RevenueCat API key or Project ID. Please check your credentials.'')), w1)
                              else
                                create_records e w1 (vi_name input) (vi_websiteUrl input)
                                  (vi_username input) (vi_appStoreId input) (vi_apiKey input)
                                  (vi_projectId input))))))"

section \<open>Assumptions on the environment\<close>

text \<open>
  The one property of Node's AES-256-GCM the cipher relies on: deciphering, with the same
  key and IV and the tag the cipher produced, gives the plaintext back.
\<close>

definition cipher_correct :: "env \<Rightarrow> bool" where
  "cipher_correct e =
     (\<forall>key iv plaintext.
        decipheriv e ALGORITHM key iv (snd (cipheriv e ALGORITHM key iv plaintext))
          (fst (cipheriv e ALGORITHM key iv plaintext)) = Inr plaintext)"

section \<open>Observations on a run\<close>

text \<open>
  The request is authorized when \<^verbatim>\<open>CRON_SECRET\<close> is configured and the header is
  \<^verbatim>\<open>Bearer\<close> followed by it: the two checks at the head of the endpoint.
\<close>

definition authorized :: "env \<Rightarrow> string option \<Rightarrow> bool" where
  "authorized e authHeader =
     (case cron_secret e of
        None \<Rightarrow> False
      | Some secret \<Rightarrow> secret \<noteq> [] \<and> authHeader = Some (''Bearer '' @ secret))"

text \<open>The stored records of one startup: its row, its credential, its metrics.\<close>

definition startup_rows :: "world \<Rightarrow> nat \<Rightarrow> Startup list" where
  "startup_rows w x = filter (\<lambda>t. st_id t = x) (startups w)"

definition key_rows :: "world \<Rightarrow> nat \<Rightarrow> ApiKey list" where
  "key_rows w x = filter (\<lambda>k. ak_startup_id k = x) (api_keys w)"

definition metric_rows :: "world \<Rightarrow> nat \<Rightarrow> RevenueMetrics list" where
  "metric_rows w x = filter (\<lambda>m. rm_startup_id m = x) (revenue_metrics w)"

text \<open>The error the job records for a startup when the master secret is not configured.\<close>

definition missing_key_error :: "startup_with_key \<Rightarrow> string" where
  "missing_key_error s =
     (if \<not> truthy (project_id s) then ''Project ID is missing''
      else if length (split_on CHR '':'' (encrypted_api_key s)) \<noteq> 4 then
        ''Failed to decrypt API key: Invalid encrypted API key format''
      else ''Failed to decrypt API key: ENCRYPTION_KEY is not set in environment variables'')"

section \<open>Example inputs\<close>

text \<open>
  A small environment on which the theorems are instantiated: the secrets are set in
  \<^verbatim>\<open>process.env\<close>, the cipher is a correct toy (the ciphertext is the plaintext, the
  tag one byte computed from key and IV), the datastore never fails, and RevenueCat
  knows three keys: \<^verbatim>\<open>sk_a\<close> has metrics, \<^verbatim>\<open>sk_b\<close> is rejected with 401
  \<^verbatim>\<open>Invalid API key.\<close>, \<^verbatim>\<open>sk_d\<close> has an empty metric list; every other request
  fails on the network.
\<close>

definition example_validator :: "js_value \<Rightarrow> validation" where
  "example_validator v =
     (case v of
        JsString s \<Rightarrow> \<lparr>valid = True, v_value = s, v_error = None\<rparr>
      | JsUndefined \<Rightarrow> \<lparr>valid = False, v_value = [], v_error = Some ''must be a string''\<rparr>
      | JsOther b \<Rightarrow> \<lparr>valid = False, v_value = [], v_error = Some ''must be a string''\<rparr>)"

definition example_tag :: "buffer \<Rightarrow> buffer \<Rightarrow> buffer" where
  "example_tag key iv = [of_nat (length key + length iv)]"

definition example_fetch :: "string \<Rightarrow> string \<Rightarrow> fetch_outcome" where
  "example_fetch url auth =
     (if auth = ''Bearer sk_a'' then
        Responded \<lparr>status = 200, statusText = ''OK'', body_text = [], body_parsed = NotParsed,
          body_json = Overview \<lparr>overview_object = ''overview_metrics'', metrics =
            [\<lparr>metric_id = ''mrr'', metric_name = ''MRR'', metric_value = 1200, metric_unit = ''$'',
              metric_period = ''P28D'', metric_description = [], metric_object = ''overview_metric'',
              metric_last_updated_at = None, metric_last_updated_at_iso8601 = None\<rparr>,
             \<lparr>metric_id = ''revenue'', metric_name = ''Revenue'', metric_value = 5000, metric_unit = ''$'',
              metric_period = ''P28D'', metric_description = [], metric_object = ''overview_metric'',
              metric_last_updated_at = None, metric_last_updated_at_iso8601 = None\<rparr>]\<rparr>\<rparr>
      else if auth = ''Bearer sk_b'' then
        Responded \<lparr>status = 401, statusText = ''Unauthorized'', body_text = ''{}'',
          body_parsed = Parsed \<lparr>eb_message = StringField ''Invalid API key.'', eb_error = NoField\<rparr>,
          body_json = NotOverview []\<rparr>
      else if auth = ''Bearer sk_d'' then
        Responded \<lparr>status = 200, statusText = ''OK'', body_text = [], body_parsed = NotParsed,
          body_json = Overview \<lparr>overview_object = ''overview_metrics'', metrics = []\<rparr>\<rparr>
      else NetworkFailure ''fetch failed'')"

definition example_env :: env where
  "example_env =
     \<lparr>import_meta_env = None,
      process_env = [''ENCRYPTION_KEY'' \<mapsto> ''k'', ''CRON_SECRET'' \<mapsto> ''c''],
      pbkdf2Sync = (\<lambda>password salt iterations keylen digest. utf8_bytes password @ salt),
      cipheriv = (\<lambda>algorithm key iv plaintext. (plaintext, example_tag key iv)),
      decipher_setup = (\<lambda>algorithm key iv tag. None),
      decipheriv = (\<lambda>algorithm key iv tag ciphertext.
         if tag = example_tag key iv then Inr ciphertext
         else Inl ''Unsupported state or unable to authenticate data''),
      random_source = (\<lambda>i n. replicate n (of_nat i)),
      http_fetch = example_fetch,
      supabase_error = (\<lambda>request. None),
      date_now = 1700000000000,
      validateName = example_validator,
      validateUrl = example_validator,
      validateUsername = example_validator,
      validateAppStoreId = example_validator,
      validateProjectId = example_validator,
      validateApiKey = example_validator\<rparr>"


definition example_token :: "string \<Rightarrow> string" where
  "example_token apiKey =
     toString_hex [0] @ '':'' @ toString_hex [1] @ '':'' @
     toString_hex (example_tag (utf8_bytes ''k'' @ [0]) [1]) @ '':'' @ toString_hex (utf8_bytes apiKey)"

text \<open>
  The stored data: startup 1 holds the key \<^verbatim>\<open>sk_a\<close>, startup 2 the rejected key
  \<^verbatim>\<open>sk_b\<close>, startup 3 a key \<^verbatim>\<open>sk_c\<close> for which the request fails on the network.
\<close>

definition example_startup :: "nat \<Rightarrow> string \<Rightarrow> Startup" where
  "example_startup i n =
     \<lparr>st_id = i, st_name = n, website_url = Some ''https://example.com'', founder_username = None,
      app_store_id = None, st_created_at = 1600000000000, st_updated_at = 1600000000000\<rparr>"

definition example_key :: "nat \<Rightarrow> string \<Rightarrow> string option \<Rightarrow> ApiKey" where
  "example_key i apiKey projectId =
     \<lparr>ak_id = i, ak_startup_id = i, revenuecat_api_key = example_token apiKey,
      revenuecat_project_id = projectId, ak_created_at = 1600000000000\<rparr>"

definition example_metrics :: "nat \<Rightarrow> real \<Rightarrow> real \<Rightarrow> RevenueMetrics" where
  "example_metrics i t m =
     \<lparr>rm_id = i, rm_startup_id = i, total_revenue = t, rm_mrr = m,
      last_updated = 1600000000000\<rparr>"

definition example_world :: world where
  "example_world =
     \<lparr>startups = [example_startup 1 ''A'', example_startup 2 ''B'', example_startup 3 ''C''],
      api_keys = [example_key 1 ''sk_a'' (Some ''proj_a''), example_key 2 ''sk_b'' (Some ''proj_b''),
                  example_key 3 ''sk_c'' (Some ''proj_c'')],
      revenue_metrics = [example_metrics 1 10 5, example_metrics 2 20 6, example_metrics 3 30 7],
      startups_id_seq = 4, api_keys_id_seq = 4, revenue_metrics_id_seq = 4,
      adapter_calls = [], rng_calls = 0\<rparr>"

text \<open>
  The rows the job reads from the example world; a world with a fourth credential that
  has no project id; the environment without the master secret; the empty datastore.
\<close>

definition example_entry :: "nat \<Rightarrow> string \<Rightarrow> string option \<Rightarrow> startup_with_key" where
  "example_entry i apiKey projectId =
     \<lparr>startup_id = i, encrypted_api_key = example_token apiKey, project_id = projectId\<rparr>"

definition example_entries :: "startup_with_key list" where
  "example_entries =
     [example_entry 1 ''sk_a'' (Some ''proj_a''), example_entry 2 ''sk_b'' (Some ''proj_b''),
      example_entry 3 ''sk_c'' (Some ''proj_c'')]"

definition example_world_no_project :: world where
  "example_world_no_project =
     example_world\<lparr>startups := startups example_world @ [example_startup 4 ''D''],
       api_keys := api_keys example_world @ [example_key 4 ''sk_d'' None]\<rparr>"

definition example_env_no_key :: env where
  "example_env_no_key = example_env\<lparr>process_env := [''CRON_SECRET'' \<mapsto> ''c'']\<rparr>"



definition empty_world :: world where
  "empty_world =
     \<lparr>startups = [], api_keys = [], revenue_metrics = [], startups_id_seq = 1,
      api_keys_id_seq = 1, revenue_metrics_id_seq = 1, adapter_calls = [], rng_calls = 0\<rparr>"

text \<open>A registration request for the project id of startup 1.\<close>

definition example_body :: add_startup_body where
  "example_body =
     \<lparr>b_name = JsString ''Another app'', b_websiteUrl = JsString ''https://example.org'',
      b_appStoreId = JsUndefined, b_founderUsername = JsUndefined,
      b_revenuecatApiKey = JsString ''sk_a'', b_projectId = JsString ''proj_a''\<rparr>"

definition example_request :: add_request where
  "example_request =
     \<lparr>rateLimit = \<lparr>allowed = True, current = 1, limit = 3, resetAt = 1700003600000, retryAfter = 0\<rparr>,
      json_body = Inr example_body\<rparr>"

section \<open>Properties\<close>

subsection \<open>Splitting and hexadecimal text\<close>

lemma split_on_nonempty: "split_on sep s \<noteq> []"
  by (induction s) (auto split: list.splits)

lemma length_split_on: "length (split_on sep s) = Suc (count_list s sep)"
  by (induction s) (auto split: list.splits simp: split_on_nonempty)

lemma split_on_no_sep: "sep \<notin> set s \<Longrightarrow> split_on sep s = [s]"
  by (induction s) auto

lemma split_on_append: "sep \<notin> set a \<Longrightarrow> split_on sep (a @ sep # rest) = a # split_on sep rest"
  by (induction a) auto

lemma hex_value_digit: "n < 16 \<Longrightarrow> hex_value (hex_digit n) = Some n"
  by (auto simp: hex_value_def hex_digit_def Let_def)

lemma hex_digit_not_colon:
  assumes "n < 16"
  shows "hex_digit n \<noteq> CHR '':''"
proof
  assume "hex_digit n = CHR '':''"
  then have "of_char (hex_digit n) = (of_char (CHR '':'') :: nat)"
    by simp
  with assms show False
    by (simp add: hex_digit_def split: if_splits)
qed

lemma unat_byte_div: "unat (b :: byte) div 16 < 16"
  using unsigned_less [of b, where ?'a = nat] by simp

lemma Buffer_from_hex_append:
  "Buffer_from_hex (hex_byte b @ rest) = b # Buffer_from_hex rest"
  by (simp add: hex_byte_def hex_value_digit unat_byte_div)

lemma hex_roundtrip: "Buffer_from_hex (toString_hex buf) = buf"
  by (induction buf) (simp_all add: toString_hex_def Buffer_from_hex_append)

lemma colon_notin_hex_byte: "CHR '':'' \<notin> set (hex_byte b)"
  using hex_digit_not_colon [OF unat_byte_div, of b] hex_digit_not_colon [of "unat b mod 16"]
  by (auto simp: hex_byte_def)

lemma colon_notin_hex: "CHR '':'' \<notin> set (toString_hex buf)"
  by (induction buf) (simp_all add: toString_hex_def colon_notin_hex_byte)

lemma hex_digit_ascii: "n < 16 \<Longrightarrow> (of_char (hex_digit n) :: nat) < 128"
  by (simp add: hex_digit_def)

lemma utf16_length_ascii:
  "\<forall>c \<in> set s. (of_char c :: nat) < 128 \<Longrightarrow> utf16_length s = length s"
  by (induction s) (simp_all add: utf16_length_def)

lemma hex_ascii: "\<forall>c \<in> set (toString_hex buf). (of_char c :: nat) < 128"
  using hex_digit_ascii [OF unat_byte_div] hex_digit_ascii [of "unat b mod 16" for b :: byte]
  by (induction buf) (simp_all add: toString_hex_def hex_byte_def)

lemma length_hex: "length (toString_hex buf) = 2 * length buf"
  by (induction buf) (simp_all add: toString_hex_def hex_byte_def)

lemma utf16_length_hex: "utf16_length (toString_hex buf) = 2 * length buf"
  by (simp add: utf16_length_ascii hex_ascii length_hex)

lemma utf8_roundtrip: "utf8_string (utf8_bytes s) = s"
  by (induction s) (simp_all add: utf8_string_def utf8_bytes_def unat_of_nat)

subsection \<open>The cipher\<close>

lemma split_token:
  "split_on CHR '':'' (toString_hex a @ CHR '':'' # toString_hex b @ CHR '':'' # toString_hex c @
      CHR '':'' # toString_hex d) = [toString_hex a, toString_hex b, toString_hex c, toString_hex d]"
  by (simp add: split_on_append split_on_no_sep colon_notin_hex)

lemma decrypt_token:
  assumes "getEncryptionKey e = Inr password"
    and "decipheriv e ALGORITHM (deriveKey e password salt) iv tag ct = Inr (utf8_bytes p)"
  shows "decryptApiKey e (toString_hex salt @ '':'' @ toString_hex iv @ '':'' @
           toString_hex tag @ '':'' @ toString_hex ct) = Inr p"
  using assms
  by (simp add: decryptApiKey_def split_token hex_roundtrip utf8_roundtrip utf16_length_hex
        del: split_on.simps)

lemma getEncryptionKey_example: "getEncryptionKey example_env = Inr ''k''"
  by (simp add: getEncryptionKey_def example_env_def js_or_def)

lemma cipher_correct_example: "cipher_correct example_env"
  by (simp add: cipher_correct_def example_env_def)

lemma decrypt_example_token: "decryptApiKey example_env (example_token apiKey) = Inr apiKey"
  unfolding example_token_def
  by (rule decrypt_token [OF getEncryptionKey_example])
     (simp add: example_env_def deriveKey_def)

text \<open>
  Claim C6. A token whose number of colon-separated fields is not four, that is, a string
  that does not contain exactly three colons, makes \<^verbatim>\<open>decryptApiKey\<close> fail with the
  format error, whatever the environment (and so whatever the master secret, present or
  not).
\<close>

theorem C6_malformed_token:
  assumes "count_list token CHR '':'' \<noteq> 3"
  shows "length (split_on CHR '':'' token) \<noteq> 4 \<and>
         decryptApiKey e token =
           Inl (new_Error ''Failed to decrypt API key: Invalid encrypted API key format'')"
  using assms by (simp add: decryptApiKey_def length_split_on del: split_on.simps)

theorem C6_malformed_token_witness:
  "count_list ''00:00:736b5f61'' CHR '':'' \<noteq> 3 \<and>
   length (split_on CHR '':'' ''00:00:736b5f61'') \<noteq> 4 \<and>
   decryptApiKey example_env ''00:00:736b5f61'' =
     Inl (new_Error ''Failed to decrypt API key: Invalid encrypted API key format'')"
proof -
  have h: "count_list ''00:00:736b5f61'' CHR '':'' \<noteq> 3"
    by simp
  show ?thesis
    using h C6_malformed_token [OF h, of example_env] by simp
qed

text \<open>
  Claim C2. With the master secret \<open>K\<close> present in the configuration and a correct
  cipher, for every plaintext \<open>P\<close> and every salt and IV the random source hands to the
  call, \<^verbatim>\<open>encryptApiKey\<close> returns the token \<^verbatim>\<open>salt:iv:tag:ciphertext\<close> in hexadecimal,
  and \<^verbatim>\<open>decryptApiKey\<close> of that token under the same configuration returns exactly \<open>P\<close>.
\<close>

theorem C2_decrypt_encrypt:
  assumes "getEncryptionKey e = Inr K"
    and "cipher_correct e"
    and "random_source e (rng_calls w) SALT_LENGTH = salt"
    and "random_source e (rng_calls w + 1) IV_LENGTH = iv"
  shows "\<exists>tag ciphertext w'.
           encryptApiKey e w P =
             (Inr (toString_hex salt @ '':'' @ toString_hex iv @ '':'' @ toString_hex tag @
                   '':'' @ toString_hex ciphertext), w') \<and>
           decryptApiKey e (toString_hex salt @ '':'' @ toString_hex iv @ '':'' @
             toString_hex tag @ '':'' @ toString_hex ciphertext) = Inr P"
proof -
  define key where "key = deriveKey e K salt"
  obtain ciphertext tag where c: "cipheriv e ALGORITHM key iv (utf8_bytes P) = (ciphertext, tag)"
    by (cases "cipheriv e ALGORITHM key iv (utf8_bytes P)")
  from assms(2) have "decipheriv e ALGORITHM key iv
      (snd (cipheriv e ALGORITHM key iv (utf8_bytes P)))
      (fst (cipheriv e ALGORITHM key iv (utf8_bytes P))) = Inr (utf8_bytes P)"
    unfolding cipher_correct_def by blast
  with c have d: "decipheriv e ALGORITHM (deriveKey e K salt) iv tag ciphertext = Inr (utf8_bytes P)"
    by (simp add: key_def)
  have "encryptApiKey e w P =
      (Inr (toString_hex salt @ '':'' @ toString_hex iv @ '':'' @ toString_hex tag @
            '':'' @ toString_hex ciphertext), w\<lparr>rng_calls := rng_calls w + 2\<rparr>)"
    using assms(1,3,4) c
    by (simp add: encryptApiKey_def randomBytes_def key_def)
  moreover have "decryptApiKey e (toString_hex salt @ '':'' @ toString_hex iv @ '':'' @
      toString_hex tag @ '':'' @ toString_hex ciphertext) = Inr P"
    by (rule decrypt_token [OF assms(1) d])
  ultimately show ?thesis
    by blast
qed

theorem C2_decrypt_encrypt_witness:
  "getEncryptionKey example_env = Inr ''k'' \<and> cipher_correct example_env \<and>
   (\<exists>tag ciphertext w'.
      encryptApiKey example_env example_world ''sk_a'' =
        (Inr (toString_hex (random_source example_env (rng_calls example_world) SALT_LENGTH) @ '':'' @
              toString_hex (random_source example_env (rng_calls example_world + 1) IV_LENGTH) @
              '':'' @ toString_hex tag @ '':'' @ toString_hex ciphertext), w') \<and>
      decryptApiKey example_env
        (toString_hex (random_source example_env (rng_calls example_world) SALT_LENGTH) @ '':'' @
         toString_hex (random_source example_env (rng_calls example_world + 1) IV_LENGTH) @
         '':'' @ toString_hex tag @ '':'' @ toString_hex ciphertext) = Inr ''sk_a'')"
  using C2_decrypt_encrypt [OF getEncryptionKey_example cipher_correct_example refl refl,
      of example_world "''sk_a''"]
    getEncryptionKey_example cipher_correct_example
  by simp

subsection \<open>The refresh job\<close>

lemma fetch_eq:
  "fetchRevenueCatMetrics e w k p =
     (fst (fetchRevenueCatMetrics e w k p), w\<lparr>adapter_calls := adapter_calls w @ [(k, p)]\<rparr>)"
  by (auto simp: fetchRevenueCatMetrics_def Let_def
      split: fetch_outcome.splits json_body.splits if_splits sum.splits)

lemma fetch_fst_indep:
  "fst (fetchRevenueCatMetrics e w k p) = fst (fetchRevenueCatMetrics e w' k p)"
  by (auto simp: fetchRevenueCatMetrics_def Let_def
      split: fetch_outcome.splits json_body.splits if_splits sum.splits)

lemma getEncryptionKey_error:
  "getEncryptionKey e = Inl err \<Longrightarrow>
     err = new_Error ''ENCRYPTION_KEY is not set in environment variables''"
  by (auto simp: getEncryptionKey_def Let_def split: option.splits if_splits)

lemma decrypt_error_name: "decryptApiKey e t = Inl err \<Longrightarrow> err_name err = ''Error''"
  by (auto simp: decryptApiKey_def Let_def new_Error_def
        split: if_splits sum.splits option.splits)

lemma upsert_metrics_fails:
  "supabase_error e (UpsertRevenueMetrics i a b) = Some msg \<Longrightarrow>
     upsertRevenueMetrics e w i a b =
       (Inl (new_Error (''Failed to upsert revenue metrics: '' @ msg)), w)"
  by (simp add: upsertRevenueMetrics_def)

lemma upsert_metrics_ok:
  "supabase_error e (UpsertRevenueMetrics i a b) = None \<Longrightarrow>
     \<exists>w'. upsertRevenueMetrics e w i a b = (Inr (), w') \<and>
       startups w' = startups w \<and> api_keys w' = api_keys w \<and>
       adapter_calls w' = adapter_calls w \<and> rng_calls w' = rng_calls w \<and>
       metric_rows w' i \<noteq> [] \<and>
       (\<forall>row \<in> set (metric_rows w' i). total_revenue row = a \<and> rm_mrr row = b) \<and>
       (\<forall>x. x \<noteq> i \<longrightarrow> metric_rows w' x = metric_rows w x)"
proof -
  assume ok: "supabase_error e (UpsertRevenueMetrics i a b) = None"
  have frame: "filter (\<lambda>m. rm_startup_id m = x)
        (map (\<lambda>row. if rm_startup_id row = i then f row else row) rows) =
      filter (\<lambda>m. rm_startup_id m = x) rows"
    if "x \<noteq> i" "\<And>row. rm_startup_id (f row) = rm_startup_id row"
    for x rows and f :: "RevenueMetrics \<Rightarrow> RevenueMetrics"
    using that by (induction rows) auto
  have upd: "filter (\<lambda>m. rm_startup_id m = i)
        (map (\<lambda>row. if rm_startup_id row = i then f row else row) rows) =
      map f (filter (\<lambda>m. rm_startup_id m = i) rows)"
    if "\<And>row. rm_startup_id (f row) = rm_startup_id row"
    for rows and f :: "RevenueMetrics \<Rightarrow> RevenueMetrics"
    using that by (induction rows) auto
  show ?thesis
  proof (cases "\<exists>row \<in> set (revenue_metrics w). rm_startup_id row = i")
    case True
    define f where "f = (\<lambda>row :: RevenueMetrics.
      row\<lparr>total_revenue := a, rm_mrr := b, last_updated := date_now e\<rparr>)"
    define w' where "w' = w\<lparr>revenue_metrics :=
      map (\<lambda>row. if rm_startup_id row = i then f row else row) (revenue_metrics w)\<rparr>"
    have f_id: "rm_startup_id (f row) = rm_startup_id row" for row
      by (simp add: f_def)
    from True have ne: "filter (\<lambda>m. rm_startup_id m = i) (revenue_metrics w) \<noteq> []"
      by (simp add: filter_empty_conv)
    have run: "upsertRevenueMetrics e w i a b = (Inr (), w')"
      using True ok by (simp add: upsertRevenueMetrics_def w'_def f_def)
    have rows: "metric_rows w' i = map f (metric_rows w i)"
      by (simp add: metric_rows_def w'_def upd f_id)
    have vals: "\<forall>row \<in> set (metric_rows w' i). total_revenue row = a \<and> rm_mrr row = b"
      unfolding rows by (simp add: f_def)
    have other: "\<forall>x. x \<noteq> i \<longrightarrow> metric_rows w' x = metric_rows w x"
      by (simp add: metric_rows_def w'_def frame f_id)
    have "metric_rows w' i \<noteq> []"
      using ne unfolding rows by (simp add: metric_rows_def)
    with run vals other show ?thesis
      by (intro exI [of _ w']) (simp add: w'_def)
  next
    case False
    define new where "new = \<lparr>rm_id = revenue_metrics_id_seq w, rm_startup_id = i,
      total_revenue = a, rm_mrr = b, last_updated = date_now e\<rparr>"
    define w' where "w' = w\<lparr>revenue_metrics := revenue_metrics w @ [new],
      revenue_metrics_id_seq := revenue_metrics_id_seq w + 1\<rparr>"
    from False have none: "filter (\<lambda>m. rm_startup_id m = i) (revenue_metrics w) = []"
      by (simp add: filter_empty_conv)
    have run: "upsertRevenueMetrics e w i a b = (Inr (), w')"
      using False ok by (simp add: upsertRevenueMetrics_def w'_def new_def)
    have rows: "metric_rows w' i = [new]"
      by (simp add: metric_rows_def w'_def none new_def)
    have vals: "\<forall>row \<in> set (metric_rows w' i). total_revenue row = a \<and> rm_mrr row = b"
      unfolding rows by (simp add: new_def)
    have other: "\<forall>x. x \<noteq> i \<longrightarrow> metric_rows w' x = metric_rows w x"
      by (simp add: metric_rows_def w'_def new_def)
    from run rows vals other show ?thesis
      by (intro exI [of _ w']) (simp add: w'_def)
  qed
qed

lemma delete_fails:
  "supabase_error e (DeleteStartup i) = Some msg \<Longrightarrow>
     deleteStartup e w i = (Inl (new_Error (''Failed to delete startup: '' @ msg)), w)"
  by (simp add: deleteStartup_def)

lemma delete_ok:
  "supabase_error e (DeleteStartup i) = None \<Longrightarrow>
     \<exists>w'. deleteStartup e w i = (Inr (), w') \<and>
       adapter_calls w' = adapter_calls w \<and> rng_calls w' = rng_calls w \<and>
       startup_rows w' i = [] \<and> key_rows w' i = [] \<and> metric_rows w' i = [] \<and>
       (\<forall>x. x \<noteq> i \<longrightarrow> startup_rows w' x = startup_rows w x \<and> key_rows w' x = key_rows w x \<and>
          metric_rows w' x = metric_rows w x)"
  by (auto simp: deleteStartup_def startup_rows_def key_rows_def metric_rows_def
      intro!: filter_cong)

lemma fetch_result:
  "fst (fetchRevenueCatMetrics e w0 k p) = X \<Longrightarrow>
     fetchRevenueCatMetrics e w k p = (X, w\<lparr>adapter_calls := adapter_calls w @ [(k, p)]\<rparr>)"
  using fetch_eq [of e w k p] fetch_fst_indep [of e w k p w0] by simp

lemma rows_logged [simp]:
  "startup_rows (w\<lparr>adapter_calls := l\<rparr>) x = startup_rows w x"
  "key_rows (w\<lparr>adapter_calls := l\<rparr>) x = key_rows w x"
  "metric_rows (w\<lparr>adapter_calls := l\<rparr>) x = metric_rows w x"
  by (simp_all add: startup_rows_def key_rows_def metric_rows_def)

lemma step_missing:
  assumes "\<not> truthy (project_id s)"
  shows "process_startup e s (w, r) =
    (w, r\<lparr>failed := failed r + 1,
          errors := errors r @ [\<lparr>ue_startup_id = startup_id s, ue_error = ''Project ID is missing''\<rparr>]\<rparr>)"
    and "fst (try_update e s (w, r)) = None"
  using assms by (simp_all add: process_startup_def try_update_def)

lemma step_decrypt_fails:
  assumes "truthy (project_id s)" "decryptApiKey e (encrypted_api_key s) = Inl err"
  shows "process_startup e s (w, r) =
    (w, r\<lparr>failed := failed r + 1,
          errors := errors r @ [\<lparr>ue_startup_id = startup_id s, ue_error = err_message err\<rparr>]\<rparr>)"
    and "fst (try_update e s (w, r)) = Some err"
  using assms decrypt_error_name [OF assms(2)]
  by (simp_all add: process_startup_def try_update_def handle_error_def)

lemma step_fetch_fails:
  assumes "project_id s = Some pid" "decryptApiKey e (encrypted_api_key s) = Inr k"
    and "fst (fetchRevenueCatMetrics e w0 k pid) = Inl err" and pid: "pid \<noteq> []"
  shows "fst (try_update e s (w, r)) = Some err"
    and "err_name err \<noteq> ''InvalidApiKeyError'' \<Longrightarrow> process_startup e s (w, r) =
      (w\<lparr>adapter_calls := adapter_calls w @ [(k, pid)]\<rparr>,
       r\<lparr>failed := failed r + 1,
         errors := errors r @ [\<lparr>ue_startup_id = startup_id s, ue_error = err_message err\<rparr>]\<rparr>)"
    and "err_name err = ''InvalidApiKeyError'' \<Longrightarrow>
      supabase_error e (DeleteStartup (startup_id s)) = Some msg \<Longrightarrow>
      process_startup e s (w, r) =
        (w\<lparr>adapter_calls := adapter_calls w @ [(k, pid)]\<rparr>,
         r\<lparr>failed := failed r + 1,
           errors := errors r @ [\<lparr>ue_startup_id = startup_id s,
             ue_error = ''Failed to delete startup: '' @ ''Failed to delete startup: '' @ msg\<rparr>]\<rparr>)"
    and "err_name err = ''InvalidApiKeyError'' \<Longrightarrow>
      supabase_error e (DeleteStartup (startup_id s)) = None \<Longrightarrow>
      \<exists>w'. process_startup e s (w, r) = (w', r\<lparr>deleted := deleted r + 1\<rparr>) \<and>
        adapter_calls w' = adapter_calls w @ [(k, pid)] \<and> rng_calls w' = rng_calls w \<and>
        startup_rows w' (startup_id s) = [] \<and> key_rows w' (startup_id s) = [] \<and>
        metric_rows w' (startup_id s) = [] \<and>
        (\<forall>x. x \<noteq> startup_id s \<longrightarrow> startup_rows w' x = startup_rows w x \<and>
           key_rows w' x = key_rows w x \<and> metric_rows w' x = metric_rows w x)"
proof -
  note f = fetch_result [OF assms(3)]
  show "fst (try_update e s (w, r)) = Some err"
    using assms(1,2) pid by (simp add: try_update_def f)
  show "process_startup e s (w, r) =
      (w\<lparr>adapter_calls := adapter_calls w @ [(k, pid)]\<rparr>,
       r\<lparr>failed := failed r + 1,
         errors := errors r @ [\<lparr>ue_startup_id = startup_id s, ue_error = err_message err\<rparr>]\<rparr>)"
    if "err_name err \<noteq> ''InvalidApiKeyError''"
    using assms(1,2) pid that by (simp add: process_startup_def try_update_def f handle_error_def)
  show "process_startup e s (w, r) =
        (w\<lparr>adapter_calls := adapter_calls w @ [(k, pid)]\<rparr>,
         r\<lparr>failed := failed r + 1,
           errors := errors r @ [\<lparr>ue_startup_id = startup_id s,
             ue_error = ''Failed to delete startup: '' @ ''Failed to delete startup: '' @ msg\<rparr>]\<rparr>)"
    if "err_name err = ''InvalidApiKeyError''"
      "supabase_error e (DeleteStartup (startup_id s)) = Some msg"
    using assms(1,2) pid that
    by (simp add: process_startup_def try_update_def f handle_error_def delete_fails new_Error_def)
  show "\<exists>w'. process_startup e s (w, r) = (w', r\<lparr>deleted := deleted r + 1\<rparr>) \<and>
        adapter_calls w' = adapter_calls w @ [(k, pid)] \<and> rng_calls w' = rng_calls w \<and>
        startup_rows w' (startup_id s) = [] \<and> key_rows w' (startup_id s) = [] \<and>
        metric_rows w' (startup_id s) = [] \<and>
        (\<forall>x. x \<noteq> startup_id s \<longrightarrow> startup_rows w' x = startup_rows w x \<and>
           key_rows w' x = key_rows w x \<and> metric_rows w' x = metric_rows w x)"
    if "err_name err = ''InvalidApiKeyError''"
      "supabase_error e (DeleteStartup (startup_id s)) = None"
  proof -
    from delete_ok [OF that(2), of "w\<lparr>adapter_calls := adapter_calls w @ [(k, pid)]\<rparr>"]
    obtain w' where w': "deleteStartup e (w\<lparr>adapter_calls := adapter_calls w @ [(k, pid)]\<rparr>)
          (startup_id s) = (Inr (), w')"
        "adapter_calls w' = adapter_calls w @ [(k, pid)]" "rng_calls w' = rng_calls w"
        "startup_rows w' (startup_id s) = []" "key_rows w' (startup_id s) = []"
        "metric_rows w' (startup_id s) = []"
        "\<forall>x. x \<noteq> startup_id s \<longrightarrow> startup_rows w' x = startup_rows w x \<and>
           key_rows w' x = key_rows w x \<and> metric_rows w' x = metric_rows w x"
      by auto
    have "process_startup e s (w, r) = (w', r\<lparr>deleted := deleted r + 1\<rparr>)"
      using assms(1,2) pid that w'(1)
      by (simp add: process_startup_def try_update_def f handle_error_def)
    with w' show ?thesis by blast
  qed
qed

lemma step_fetched:
  assumes "project_id s = Some pid" "decryptApiKey e (encrypted_api_key s) = Inr k"
    and "fst (fetchRevenueCatMetrics e w0 k pid) = Inr m"
  shows "supabase_error e (UpsertRevenueMetrics (startup_id s) (revenue m) (mrr m)) = Some msg \<Longrightarrow>
      fst (try_update e s (w, r)) = Some (new_Error (''Failed to upsert revenue metrics: '' @ msg)) \<and>
      process_startup e s (w, r) =
        (w\<lparr>adapter_calls := adapter_calls w @ [(k, pid)]\<rparr>,
         r\<lparr>failed := failed r + 1,
           errors := errors r @ [\<lparr>ue_startup_id = startup_id s,
             ue_error = ''Failed to upsert revenue metrics: '' @ msg\<rparr>]\<rparr>)"
    and "supabase_error e (UpsertRevenueMetrics (startup_id s) (revenue m) (mrr m)) = None \<Longrightarrow>
      fst (try_update e s (w, r)) = None \<and>
      (\<exists>w'. process_startup e s (w, r) = (w', r\<lparr>success := success r + 1\<rparr>) \<and>
        startups w' = startups w \<and> api_keys w' = api_keys w \<and>
        adapter_calls w' = adapter_calls w @ [(k, pid)] \<and> rng_calls w' = rng_calls w \<and>
        metric_rows w' (startup_id s) \<noteq> [] \<and>
        (\<forall>row \<in> set (metric_rows w' (startup_id s)).
           total_revenue row = revenue m \<and> rm_mrr row = mrr m) \<and>
        (\<forall>x. x \<noteq> startup_id s \<longrightarrow> metric_rows w' x = metric_rows w x))"
proof -
  have pid: "pid \<noteq> []"
    using assms(3) by (auto simp: fetchRevenueCatMetrics_def)
  note f = fetch_result [OF assms(3)]
  show "fst (try_update e s (w, r)) = Some (new_Error (''Failed to upsert revenue metrics: '' @ msg)) \<and>
      process_startup e s (w, r) =
        (w\<lparr>adapter_calls := adapter_calls w @ [(k, pid)]\<rparr>,
         r\<lparr>failed := failed r + 1,
           errors := errors r @ [\<lparr>ue_startup_id = startup_id s,
             ue_error = ''Failed to upsert revenue metrics: '' @ msg\<rparr>]\<rparr>)"
    if "supabase_error e (UpsertRevenueMetrics (startup_id s) (revenue m) (mrr m)) = Some msg"
    using assms(1,2) pid
    by (simp add: process_startup_def try_update_def f handle_error_def
        upsert_metrics_fails [OF that] new_Error_def)
  show "fst (try_update e s (w, r)) = None \<and>
      (\<exists>w'. process_startup e s (w, r) = (w', r\<lparr>success := success r + 1\<rparr>) \<and>
        startups w' = startups w \<and> api_keys w' = api_keys w \<and>
        adapter_calls w' = adapter_calls w @ [(k, pid)] \<and> rng_calls w' = rng_calls w \<and>
        metric_rows w' (startup_id s) \<noteq> [] \<and>
        (\<forall>row \<in> set (metric_rows w' (startup_id s)).
           total_revenue row = revenue m \<and> rm_mrr row = mrr m) \<and>
        (\<forall>x. x \<noteq> startup_id s \<longrightarrow> metric_rows w' x = metric_rows w x))"
    if "supabase_error e (UpsertRevenueMetrics (startup_id s) (revenue m) (mrr m)) = None"
  proof -
    from upsert_metrics_ok [OF that, of "w\<lparr>adapter_calls := adapter_calls w @ [(k, pid)]\<rparr>"]
    obtain w' where w':
        "upsertRevenueMetrics e (w\<lparr>adapter_calls := adapter_calls w @ [(k, pid)]\<rparr>)
           (startup_id s) (revenue m) (mrr m) = (Inr (), w')"
        "startups w' = startups w" "api_keys w' = api_keys w"
        "adapter_calls w' = adapter_calls w @ [(k, pid)]" "rng_calls w' = rng_calls w"
        "metric_rows w' (startup_id s) \<noteq> []"
        "\<forall>row \<in> set (metric_rows w' (startup_id s)).
           total_revenue row = revenue m \<and> rm_mrr row = mrr m"
        "\<forall>x. x \<noteq> startup_id s \<longrightarrow> metric_rows w' x = metric_rows w x"
      by auto
    have "try_update e s (w, r) = (None, (w', r\<lparr>success := success r + 1\<rparr>))"
      using assms(1,2) pid w'(1) by (simp add: try_update_def f)
    then have "fst (try_update e s (w, r)) = None"
      and "process_startup e s (w, r) = (w', r\<lparr>success := success r + 1\<rparr>)"
      by (simp_all add: process_startup_def)
    with w' show ?thesis by blast
  qed
qed

lemma step_shape:
  "\<exists>w' r'. process_startup e s (w, r) = (w', r') \<and>
     ((\<exists>m l. w' = w\<lparr>adapter_calls := l\<rparr> \<and>
         r' = r\<lparr>failed := failed r + 1,
                errors := errors r @ [\<lparr>ue_startup_id = startup_id s, ue_error = m\<rparr>]\<rparr>) \<or>
      (r' = r\<lparr>deleted := deleted r + 1\<rparr> \<and>
         (\<forall>x. x \<noteq> startup_id s \<longrightarrow> startup_rows w' x = startup_rows w x \<and>
            key_rows w' x = key_rows w x \<and> metric_rows w' x = metric_rows w x)) \<or>
      (r' = r\<lparr>success := success r + 1\<rparr> \<and> startups w' = startups w \<and>
         api_keys w' = api_keys w \<and>
         (\<forall>x. x \<noteq> startup_id s \<longrightarrow> metric_rows w' x = metric_rows w x)))"
proof (cases "truthy (project_id s)")
  case False
  have "w = w\<lparr>adapter_calls := adapter_calls w\<rparr>" by simp
  with step_missing(1) [OF False, of e w r] show ?thesis by blast
next
  case True
  then obtain pid where pid: "project_id s = Some pid" "pid \<noteq> []"
    by (cases "project_id s") auto
  show ?thesis
  proof (cases "decryptApiKey e (encrypted_api_key s)")
    case (Inl err)
    have "w = w\<lparr>adapter_calls := adapter_calls w\<rparr>" by simp
    with step_decrypt_fails(1) [OF True Inl, of w r] show ?thesis by blast
  next
    case (Inr k)
    show ?thesis
    proof (cases "fst (fetchRevenueCatMetrics e w k pid)")
      case (Inl err)
      note st = step_fetch_fails [OF pid(1) Inr Inl pid(2)]
      show ?thesis
      proof (cases "err_name err = ''InvalidApiKeyError''")
        case False
        from st(2) [OF False, of w r] show ?thesis by blast
      next
        case True
        show ?thesis
        proof (cases "supabase_error e (DeleteStartup (startup_id s))")
          case None
          from st(4) [OF True None, of w r] show ?thesis by blast
        next
          case (Some msg)
          from st(3) [OF True Some, of w r] show ?thesis by blast
        qed
      qed
    next
      case fetched: (Inr m)
      note st = step_fetched [OF pid(1) Inr fetched]
      show ?thesis
      proof (cases "supabase_error e (UpsertRevenueMetrics (startup_id s) (revenue m) (mrr m))")
        case None
        from st(2) [OF None, of w r] show ?thesis by blast
      next
        case (Some msg)
        from st(1) [OF Some, of w r] show ?thesis by blast
      qed
    qed
  qed
qed

lemma step_frame:
  assumes "process_startup e s (w, r) = (w', r')" and "x \<noteq> startup_id s"
  shows "startup_rows w' x = startup_rows w x \<and> key_rows w' x = key_rows w x \<and>
         metric_rows w' x = metric_rows w x"
  using step_shape [of e s w r] assms
  by (auto simp: startup_rows_def key_rows_def)

lemma process_startup_counts:
  assumes "process_startup e s (w, r) = (w', r')"
  shows "(success r' = success r + 1 \<and> failed r' = failed r \<and> deleted r' = deleted r \<and>
            errors r' = errors r) \<or>
         (success r' = success r \<and> failed r' = failed r \<and> deleted r' = deleted r + 1 \<and>
            errors r' = errors r) \<or>
         (success r' = success r \<and> failed r' = failed r + 1 \<and> deleted r' = deleted r \<and>
            (\<exists>m. errors r' = errors r @ [\<lparr>ue_startup_id = startup_id s, ue_error = m\<rparr>]))"
  using step_shape [of e s w r] assms by auto

lemma update_all_append:
  "update_all e (xs @ ys) st = update_all e ys (update_all e xs st)"
  by (induction xs arbitrary: st) simp_all

lemma update_all_frame:
  assumes "update_all e es (w, r) = (w', r')" and "x \<notin> startup_id ` set es"
  shows "startup_rows w' x = startup_rows w x \<and> key_rows w' x = key_rows w x \<and>
         metric_rows w' x = metric_rows w x"
  using assms
proof (induction es arbitrary: w r)
  case Nil
  then show ?case by simp
next
  case (Cons s es)
  obtain w1 r1 where step: "process_startup e s (w, r) = (w1, r1)"
    by (cases "process_startup e s (w, r)")
  with Cons.prems have rest: "update_all e es (w1, r1) = (w', r')" and "x \<notin> startup_id ` set es"
    and "x \<noteq> startup_id s"
    by auto
  with Cons.IH [OF rest] step_frame [OF step] show ?case
    by simp
qed

lemma update_all_counts:
  assumes "update_all e es (w, r) = (w', r')"
  shows "\<exists>new. errors r' = errors r @ new \<and> failed r' = failed r + length new \<and>
           subseq (map ue_startup_id new) (map startup_id es) \<and>
           success r' + deleted r' + length new = success r + deleted r + length es \<and>
           success r \<le> success r' \<and> deleted r \<le> deleted r'"
  using assms
proof (induction es arbitrary: w r)
  case Nil
  then show ?case by simp
next
  case (Cons s es)
  obtain w1 r1 where step: "process_startup e s (w, r) = (w1, r1)"
    by (cases "process_startup e s (w, r)")
  with Cons.prems have rest: "update_all e es (w1, r1) = (w', r')"
    by simp
  from Cons.IH [OF rest] obtain new where new:
    "errors r' = errors r1 @ new" "failed r' = failed r1 + length new"
    "subseq (map ue_startup_id new) (map startup_id es)"
    "success r' + deleted r' + length new = success r1 + deleted r1 + length es"
    "success r1 \<le> success r'" "deleted r1 \<le> deleted r'"
    by blast
  from process_startup_counts [OF step] show ?case
  proof (elim disjE conjE exE)
    assume "success r1 = success r + 1" "failed r1 = failed r" "deleted r1 = deleted r"
      "errors r1 = errors r"
    with new show ?thesis
      by (intro exI [of _ new]) (simp add: list_emb_Cons)
  next
    assume "success r1 = success r" "failed r1 = failed r" "deleted r1 = deleted r + 1"
      "errors r1 = errors r"
    with new show ?thesis
      by (intro exI [of _ new]) (simp add: list_emb_Cons)
  next
    fix m
    assume "success r1 = success r" "failed r1 = failed r + 1" "deleted r1 = deleted r"
      "errors r1 = errors r @ [\<lparr>ue_startup_id = startup_id s, ue_error = m\<rparr>]"
    with new show ?thesis
      by (intro exI [of _ "\<lparr>ue_startup_id = startup_id s, ue_error = m\<rparr> # new"]) simp
  qed
qed

lemma run_split:
  assumes run: "update_all e es (w, r) = (w', r')"
    and mem: "s \<in> set es" and dist: "distinct (map startup_id es)"
  obtains w1 r1 w2 r2 before after where
    "process_startup e s (w1, r1) = (w2, r2)"
    "startup_rows w1 (startup_id s) = startup_rows w (startup_id s)"
    "key_rows w1 (startup_id s) = key_rows w (startup_id s)"
    "metric_rows w1 (startup_id s) = metric_rows w (startup_id s)"
    "startup_rows w' (startup_id s) = startup_rows w2 (startup_id s)"
    "key_rows w' (startup_id s) = key_rows w2 (startup_id s)"
    "metric_rows w' (startup_id s) = metric_rows w2 (startup_id s)"
    "errors r1 = errors r @ before" "errors r' = errors r2 @ after"
    "success r \<le> success r1" "success r2 \<le> success r'"
    "deleted r \<le> deleted r1" "deleted r2 \<le> deleted r'"
proof -
  from mem obtain pre post where es: "es = pre @ s # post"
    by (auto simp: in_set_conv_decomp)
  with dist have notin: "startup_id s \<notin> startup_id ` set pre" "startup_id s \<notin> startup_id ` set post"
    by auto
  obtain w1 r1 where first: "update_all e pre (w, r) = (w1, r1)"
    by (cases "update_all e pre (w, r)")
  obtain w2 r2 where step: "process_startup e s (w1, r1) = (w2, r2)"
    by (cases "process_startup e s (w1, r1)")
  from run have last: "update_all e post (w2, r2) = (w', r')"
    by (simp add: es update_all_append first step)
  from update_all_counts [OF first] obtain before where
    b: "errors r1 = errors r @ before" "success r \<le> success r1" "deleted r \<le> deleted r1"
    by blast
  from update_all_counts [OF last] obtain after where
    a: "errors r' = errors r2 @ after" "success r2 \<le> success r'" "deleted r2 \<le> deleted r'"
    by blast
  from update_all_frame [OF first notin(1)] update_all_frame [OF last notin(2)] step a b
  show ?thesis
    by (intro that [of w1 r1 w2 r2 before after]) simp_all
qed

lemma GET_run:
  assumes "authorized e authHeader" "getStartupsWithApiKeys e w = Inr es" "es \<noteq> []"
    and "update_all e es (w, \<lparr>success = 0, failed = 0, deleted = 0, errors = []\<rparr>) = (w', r')"
  shows "GET e w authHeader = ((200, UpdateCompleted ''Metrics update completed'' r'), w')"
  using assms
  by (auto simp: GET_def authorized_def Let_def split: option.splits)



lemma try_update_cases:
  obtains
    (missing) "\<not> truthy (project_id s)"
      "try_update e s (w, r) =
         (None, (w, r\<lparr>failed := failed r + 1,
            errors := errors r @
              [\<lparr>ue_startup_id = startup_id s, ue_error = ''Project ID is missing''\<rparr>]\<rparr>))"
  | (decrypt_failed) err where "truthy (project_id s)"
      "decryptApiKey e (encrypted_api_key s) = Inl err"
      "try_update e s (w, r) = (Some err, (w, r))"
  | (fetch_failed) pid k err where "project_id s = Some pid" "pid \<noteq> []"
      "decryptApiKey e (encrypted_api_key s) = Inr k"
      "fst (fetchRevenueCatMetrics e w k pid) = Inl err"
      "try_update e s (w, r) = (Some err, (w\<lparr>adapter_calls := adapter_calls w @ [(k, pid)]\<rparr>, r))"
  | (write_failed) pid k m msg where "project_id s = Some pid" "pid \<noteq> []"
      "decryptApiKey e (encrypted_api_key s) = Inr k"
      "fst (fetchRevenueCatMetrics e w k pid) = Inr m"
      "supabase_error e (UpsertRevenueMetrics (startup_id s) (revenue m) (mrr m)) = Some msg"
      "try_update e s (w, r) =
         (Some (new_Error (''Failed to upsert revenue metrics: '' @ msg)),
          (w\<lparr>adapter_calls := adapter_calls w @ [(k, pid)]\<rparr>, r))"
  | (updated) pid k m w' where "project_id s = Some pid" "pid \<noteq> []"
      "decryptApiKey e (encrypted_api_key s) = Inr k"
      "fst (fetchRevenueCatMetrics e w k pid) = Inr m"
      "supabase_error e (UpsertRevenueMetrics (startup_id s) (revenue m) (mrr m)) = None"
      "upsertRevenueMetrics e (w\<lparr>adapter_calls := adapter_calls w @ [(k, pid)]\<rparr>) (startup_id s)
         (revenue m) (mrr m) = (Inr (), w')"
      "try_update e s (w, r) = (None, (w', r\<lparr>success := success r + 1\<rparr>))"
proof (cases "truthy (project_id s)")
  case False
  then show ?thesis
    by (intro missing) (simp_all add: try_update_def)
next
  case True
  then obtain pid where pid: "project_id s = Some pid" "pid \<noteq> []"
    by (cases "project_id s") auto
  show ?thesis
  proof (cases "decryptApiKey e (encrypted_api_key s)")
    case (Inl err)
    with True show ?thesis
      by (intro decrypt_failed [of err]) (simp_all add: try_update_def)
  next
    case (Inr k)
    show ?thesis
    proof (cases "fst (fetchRevenueCatMetrics e w k pid)")
      case (Inl err)
      with pid Inr show ?thesis
        by (intro fetch_failed [of pid k err]) (simp_all add: try_update_def fetch_result [OF Inl])
    next
      case fetched: (Inr m)
      show ?thesis
      proof (cases "supabase_error e (UpsertRevenueMetrics (startup_id s) (revenue m) (mrr m))")
        case (Some msg)
        with pid Inr fetched show ?thesis
          by (intro write_failed [of pid k m msg])
            (simp_all add: try_update_def fetch_result [OF fetched] upsert_metrics_fails)
      next
        case None
        from upsert_metrics_ok [OF None, of "w\<lparr>adapter_calls := adapter_calls w @ [(k, pid)]\<rparr>"]
        obtain w' where "upsertRevenueMetrics e (w\<lparr>adapter_calls := adapter_calls w @ [(k, pid)]\<rparr>)
            (startup_id s) (revenue m) (mrr m) = (Inr (), w')"
          by blast
        with pid Inr fetched None show ?thesis
          by (intro updated [of pid k m w'])
            (simp_all add: try_update_def fetch_result [OF fetched])
      qed
    qed
  qed
qed

lemma handle_other:
  "err_name err \<noteq> ''InvalidApiKeyError'' \<Longrightarrow>
     handle_error e s err (w, r) =
       (w, r\<lparr>failed := failed r + 1,
             errors := errors r @ [\<lparr>ue_startup_id = startup_id s, ue_error = err_message err\<rparr>]\<rparr>)"
  by (simp add: handle_error_def)









lemma authorized_example: "authorized example_env (Some ''Bearer c'')"
  by (simp add: authorized_def cron_secret_def example_env_def js_or_def)

lemma authorized_example_no_key: "authorized example_env_no_key (Some ''Bearer c'')"
  by (simp add: authorized_def cron_secret_def example_env_no_key_def example_env_def js_or_def)

lemma no_key_example:
  "getEncryptionKey example_env_no_key =
     Inl (new_Error ''ENCRYPTION_KEY is not set in environment variables'')"
  by (simp add: getEncryptionKey_def example_env_no_key_def example_env_def js_or_def)

lemma supabase_example [simp]: "supabase_error example_env request = None"
  by (simp add: example_env_def)

lemma supabase_example_no_key [simp]: "supabase_error example_env_no_key request = None"
  by (simp add: example_env_no_key_def example_env_def)

lemma entries_example: "getStartupsWithApiKeys example_env example_world = Inr example_entries"
  by (simp add: getStartupsWithApiKeys_def example_world_def example_entries_def example_entry_def
      example_key_def)

lemma entries_example_no_key:
  "getStartupsWithApiKeys example_env_no_key example_world = Inr example_entries"
  by (simp add: getStartupsWithApiKeys_def example_world_def example_entries_def example_entry_def
      example_key_def)

lemma entries_example_no_project:
  "getStartupsWithApiKeys example_env example_world_no_project =
     Inr (example_entries @ [example_entry 4 ''sk_d'' None])"
  by (simp add: getStartupsWithApiKeys_def example_world_no_project_def example_world_def
      example_entries_def example_entry_def example_key_def)

lemma entries_empty: "getStartupsWithApiKeys example_env empty_world = Inr []"
  by (simp add: getStartupsWithApiKeys_def empty_world_def)




lemma example_entry_simps [simp]:
  "startup_id (example_entry i k p) = i"
  "encrypted_api_key (example_entry i k p) = example_token k"
  "project_id (example_entry i k p) = p"
  by (simp_all add: example_entry_def)

lemma step_calls:
  assumes "process_startup e s (w, r) = (w', r')"
  shows "length (adapter_calls w') \<le> length (adapter_calls w) + (if truthy (project_id s) then 1 else 0)"
proof (cases rule: try_update_cases [of s e w r])
  case missing
  with assms show ?thesis by (simp add: process_startup_def)
next
  case (decrypt_failed err)
  with assms decrypt_error_name [OF decrypt_failed(2)] show ?thesis
    by (auto simp: process_startup_def handle_other)
next
  case (fetch_failed pid k err)
  show ?thesis
  proof (cases "err_name err = ''InvalidApiKeyError''")
    case False
    with assms fetch_failed show ?thesis
      by (auto simp: process_startup_def handle_other)
  next
    case True
    show ?thesis
    proof (cases "supabase_error e (DeleteStartup (startup_id s))")
      case None
      from step_fetch_fails(4) [OF fetch_failed(1,3,4,2) True None, of w r] assms fetch_failed(1,2)
      show ?thesis by auto
    next
      case (Some msg)
      from step_fetch_fails(3) [OF fetch_failed(1,3,4,2) True Some, of w r] assms fetch_failed(1,2)
      show ?thesis by auto
    qed
  qed
next
  case (write_failed pid k m msg)
  with assms show ?thesis
    by (auto simp: process_startup_def handle_other new_Error_def)
next
  case (updated pid k m w1)
  from step_fetched(2) [OF updated(1,3,4,5), of w r] assms updated(1,2)
  show ?thesis by auto
qed

lemma update_all_calls:
  assumes "update_all e es (w, r) = (w', r')"
  shows "length (adapter_calls w') \<le>
         length (adapter_calls w) + length (filter (\<lambda>s. truthy (project_id s)) es)"
  using assms
proof (induction es arbitrary: w r)
  case Nil
  then show ?case by simp
next
  case (Cons s es)
  obtain w1 r1 where step: "process_startup e s (w, r) = (w1, r1)"
    by (cases "process_startup e s (w, r)")
  with Cons.prems have rest: "update_all e es (w1, r1) = (w', r')"
    by simp
  from Cons.IH [OF rest] step_calls [OF step] show ?case
    by (simp split: if_splits)
qed

text \<open>
  Claim C10. A run over a non-empty list of \<open>N\<close> startups always completes with the
  report: the three counters add up to \<open>N\<close>, the list of errors has exactly
  \<^verbatim>\<open>failed\<close> elements, and these name startups of the input, in the order of the input.
  Each turn of the loop, from any state, adds one to exactly one counter, and adds an
  error for its startup exactly when that counter is \<^verbatim>\<open>failed\<close>.
\<close>

theorem C10_report_counts:
  assumes "authorized e authHeader" and "getStartupsWithApiKeys e w = Inr es" and "es \<noteq> []"
  shows "\<exists>w' r'.
      GET e w authHeader = ((200, UpdateCompleted ''Metrics update completed'' r'), w') \<and>
      success r' + failed r' + deleted r' = length es \<and>
      length (errors r') = failed r' \<and>
      subseq (map ue_startup_id (errors r')) (map startup_id es) \<and>
      (\<forall>s w0 r0. \<exists>w1 r1. process_startup e s (w0, r0) = (w1, r1) \<and>
         ((success r1 = success r0 + 1 \<and> failed r1 = failed r0 \<and> deleted r1 = deleted r0 \<and>
             errors r1 = errors r0) \<or>
          (success r1 = success r0 \<and> failed r1 = failed r0 \<and> deleted r1 = deleted r0 + 1 \<and>
             errors r1 = errors r0) \<or>
          (success r1 = success r0 \<and> failed r1 = failed r0 + 1 \<and> deleted r1 = deleted r0 \<and>
             (\<exists>m. errors r1 = errors r0 @ [\<lparr>ue_startup_id = startup_id s, ue_error = m\<rparr>]))))"
proof -
  obtain w' r' where run:
    "update_all e es (w, \<lparr>success = 0, failed = 0, deleted = 0, errors = []\<rparr>) = (w', r')"
    by (cases "update_all e es (w, \<lparr>success = 0, failed = 0, deleted = 0, errors = []\<rparr>)")
  from update_all_counts [OF run] obtain new where new:
    "errors r' = new" "failed r' = length new"
    "subseq (map ue_startup_id new) (map startup_id es)"
    "success r' + deleted r' + length new = length es"
    by auto
  have step: "\<exists>w1 r1. process_startup e s (w0, r0) = (w1, r1) \<and>
         ((success r1 = success r0 + 1 \<and> failed r1 = failed r0 \<and> deleted r1 = deleted r0 \<and>
             errors r1 = errors r0) \<or>
          (success r1 = success r0 \<and> failed r1 = failed r0 \<and> deleted r1 = deleted r0 + 1 \<and>
             errors r1 = errors r0) \<or>
          (success r1 = success r0 \<and> failed r1 = failed r0 + 1 \<and> deleted r1 = deleted r0 \<and>
             (\<exists>m. errors r1 = errors r0 @ [\<lparr>ue_startup_id = startup_id s, ue_error = m\<rparr>])))"
    for s w0 r0
  proof -
    obtain w1 r1 where p: "process_startup e s (w0, r0) = (w1, r1)"
      by (cases "process_startup e s (w0, r0)")
    from process_startup_counts [OF p] p show ?thesis
      by blast
  qed
  from GET_run [OF assms run] new step show ?thesis
    by (intro exI [of _ w'] exI [of _ r']) simp
qed

theorem C10_report_counts_witness:
  "authorized example_env (Some ''Bearer c'') \<and>
   getStartupsWithApiKeys example_env example_world = Inr example_entries \<and>
   example_entries \<noteq> [] \<and>
   (\<exists>w' r'.
      GET example_env example_world (Some ''Bearer c'') =
        ((200, UpdateCompleted ''Metrics update completed'' r'), w') \<and>
      success r' + failed r' + deleted r' = length example_entries \<and>
      length (errors r') = failed r' \<and>
      subseq (map ue_startup_id (errors r')) (map startup_id example_entries))"
proof -
  have ne: "example_entries \<noteq> []"
    by (simp add: example_entries_def)
  from C10_report_counts [OF authorized_example entries_example ne]
  show ?thesis
    using authorized_example entries_example ne by blast
qed





















text \<open>
  Claim C7. A startup of the input without project id (\<^verbatim>\<open>null\<close> or empty): whenever
  the loop reaches it, in any state, it adds one to \<^verbatim>\<open>failed\<close>, records the error
  \<^verbatim>\<open>Project ID is missing\<close> for it and leaves the world as it is: no adapter call is
  logged and no table changes. After a run over startups with distinct ids the report
  holds that error, the records of the startup are what they were, and the adapter was
  called at most once per startup that has a project id.
\<close>

theorem C7_missing_project_id:
  assumes "authorized e authHeader" and "getStartupsWithApiKeys e w = Inr es"
    and "distinct (map startup_id es)" and "s \<in> set es" and "\<not> truthy (project_id s)"
  shows "\<exists>w' r'.
      GET e w authHeader = ((200, UpdateCompleted ''Metrics update completed'' r'), w') \<and>
      \<lparr>ue_startup_id = startup_id s, ue_error = ''Project ID is missing''\<rparr> \<in> set (errors r') \<and>
      1 \<le> failed r' \<and>
      startup_rows w' (startup_id s) = startup_rows w (startup_id s) \<and>
      key_rows w' (startup_id s) = key_rows w (startup_id s) \<and>
      metric_rows w' (startup_id s) = metric_rows w (startup_id s) \<and>
      length (adapter_calls w') \<le>
        length (adapter_calls w) + length (filter (\<lambda>x. truthy (project_id x)) es) \<and>
      (\<forall>w0 r0. process_startup e s (w0, r0) =
         (w0, r0\<lparr>failed := failed r0 + 1,
                 errors := errors r0 @
                   [\<lparr>ue_startup_id = startup_id s, ue_error = ''Project ID is missing''\<rparr>]\<rparr>))"
proof -
  let ?r0 = "\<lparr>success = 0, failed = 0, deleted = 0, errors = []\<rparr>"
  let ?err = "\<lparr>ue_startup_id = startup_id s, ue_error = ''Project ID is missing''\<rparr>"
  from assms(4) have ne: "es \<noteq> []"
    by auto
  obtain w' r' where run: "update_all e es (w, ?r0) = (w', r')"
    by (cases "update_all e es (w, ?r0)")
  obtain w1 r1 w2 r2 before after where sp:
    "process_startup e s (w1, r1) = (w2, r2)"
    "startup_rows w1 (startup_id s) = startup_rows w (startup_id s)"
    "key_rows w1 (startup_id s) = key_rows w (startup_id s)"
    "metric_rows w1 (startup_id s) = metric_rows w (startup_id s)"
    "startup_rows w' (startup_id s) = startup_rows w2 (startup_id s)"
    "key_rows w' (startup_id s) = key_rows w2 (startup_id s)"
    "metric_rows w' (startup_id s) = metric_rows w2 (startup_id s)"
    "errors r' = errors r2 @ after"
    using run_split [OF run assms(4,3)] by metis
  note step = step_missing(1) [OF assms(5), of e]
  from sp(1) step [of w1 r1] have same: "w2 = w1" "errors r2 = errors r1 @ [?err]"
    by auto
  with sp have rows: "startup_rows w' (startup_id s) = startup_rows w (startup_id s)"
    "key_rows w' (startup_id s) = key_rows w (startup_id s)"
    "metric_rows w' (startup_id s) = metric_rows w (startup_id s)"
    and mem: "?err \<in> set (errors r')"
    by simp_all
  from update_all_counts [OF run] have "failed r' = length (errors r')"
    by auto
  with mem have pos: "1 \<le> failed r'"
    by (cases "errors r'") simp_all
  from GET_run [OF assms(1,2) ne run] mem pos rows update_all_calls [OF run] step
  show ?thesis
    by (intro exI [of _ w'] exI [of _ r']) simp
qed

lemma distinct_example_no_project:
  "distinct (map startup_id (example_entries @ [example_entry 4 ''sk_d'' None]))"
  by (simp add: example_entries_def)

theorem C7_missing_project_id_witness:
  "authorized example_env (Some ''Bearer c'') \<and>
   getStartupsWithApiKeys example_env example_world_no_project =
     Inr (example_entries @ [example_entry 4 ''sk_d'' None]) \<and>
   distinct (map startup_id (example_entries @ [example_entry 4 ''sk_d'' None])) \<and>
   \<not> truthy (project_id (example_entry 4 ''sk_d'' None)) \<and>
   (\<exists>w' r'.
      GET example_env example_world_no_project (Some ''Bearer c'') =
        ((200, UpdateCompleted ''Metrics update completed'' r'), w') \<and>
      \<lparr>ue_startup_id = 4, ue_error = ''Project ID is missing''\<rparr> \<in> set (errors r') \<and>
      startup_rows w' 4 = startup_rows example_world_no_project 4 \<and>
      key_rows w' 4 = key_rows example_world_no_project 4 \<and>
      metric_rows w' 4 = metric_rows example_world_no_project 4 \<and>
      length (adapter_calls w') \<le> length (adapter_calls example_world_no_project) + 3)"
proof -
  have mem: "example_entry 4 ''sk_d'' None \<in> set (example_entries @ [example_entry 4 ''sk_d'' None])"
    by simp
  have no: "\<not> truthy (project_id (example_entry 4 ''sk_d'' None))"
    by simp
  have three: "length (filter (\<lambda>x. truthy (project_id x))
      (example_entries @ [example_entry 4 ''sk_d'' None])) = 3"
    by (simp add: example_entries_def)
  from C7_missing_project_id [OF authorized_example entries_example_no_project
      distinct_example_no_project mem no]
  show ?thesis
    using authorized_example entries_example_no_project distinct_example_no_project three
    by auto
qed

text \<open>
  Claim C9. A 2xx answer whose body is an overview without a metric named \<^verbatim>\<open>mrr\<close> and
  without one named \<^verbatim>\<open>revenue\<close> makes the adapter return zero for both; and a startup
  with that credential and project id is then a success of the job: the zeros are
  written to its metrics (when the datastore accepts the write).
\<close>

theorem C9_zero_reading:
  assumes "projectId \<noteq> []"
    and "http_fetch e (''https://api.revenuecat.com/v2/projects/'' @ projectId @ ''/metrics/overview'')
           (''Bearer '' @ apiKey) = Responded response"
    and "response_ok response" and "body_json response = Overview data"
    and "\<forall>x \<in> set (metrics data). metric_id x \<noteq> ''mrr'' \<and> metric_id x \<noteq> ''revenue''"
  shows "fst (fetchRevenueCatMetrics e w apiKey projectId) = Inr \<lparr>mrr = 0, revenue = 0\<rparr> \<and>
    (\<forall>s r. project_id s = Some projectId \<and> decryptApiKey e (encrypted_api_key s) = Inr apiKey \<and>
        supabase_error e (UpsertRevenueMetrics (startup_id s) 0 0) = None \<longrightarrow>
      (\<exists>w'. process_startup e s (w, r) = (w', r\<lparr>success := success r + 1\<rparr>) \<and>
         metric_rows w' (startup_id s) \<noteq> [] \<and>
         (\<forall>row \<in> set (metric_rows w' (startup_id s)). total_revenue row = 0 \<and> rm_mrr row = 0)))"
proof -
  from assms(5) have "find (\<lambda>x. metric_id x = ''mrr'') (metrics data) = None"
      "find (\<lambda>x. metric_id x = ''revenue'') (metrics data) = None"
    by (simp_all add: find_None_iff)
  with assms(1-4) have zero: "fst (fetchRevenueCatMetrics e w apiKey projectId) =
      Inr \<lparr>mrr = 0, revenue = 0\<rparr>"
    by (simp add: fetchRevenueCatMetrics_def value_or_0_def)
  have "\<exists>w'. process_startup e s (w, r) = (w', r\<lparr>success := success r + 1\<rparr>) \<and>
         metric_rows w' (startup_id s) \<noteq> [] \<and>
         (\<forall>row \<in> set (metric_rows w' (startup_id s)). total_revenue row = 0 \<and> rm_mrr row = 0)"
    if "project_id s = Some projectId" "decryptApiKey e (encrypted_api_key s) = Inr apiKey"
      "supabase_error e (UpsertRevenueMetrics (startup_id s) 0 0) = None" for s r
    using step_fetched(2) [OF that(1,2) zero, of w r] that(3) by auto
  with zero show ?thesis
    by blast
qed

theorem C9_zero_reading_witness:
  "http_fetch example_env (''https://api.revenuecat.com/v2/projects/'' @ ''proj_d'' @ ''/metrics/overview'')
     (''Bearer '' @ ''sk_d'') =
     Responded \<lparr>status = 200, statusText = ''OK'', body_text = [], body_parsed = NotParsed,
       body_json = Overview \<lparr>overview_object = ''overview_metrics'', metrics = []\<rparr>\<rparr> \<and>
   fst (fetchRevenueCatMetrics example_env example_world ''sk_d'' ''proj_d'') =
     Inr \<lparr>mrr = 0, revenue = 0\<rparr> \<and>
   (\<exists>w'. process_startup example_env (example_entry 4 ''sk_d'' (Some ''proj_d''))
        (example_world, \<lparr>success = 0, failed = 0, deleted = 0, errors = []\<rparr>) =
        (w', \<lparr>success = 1, failed = 0, deleted = 0, errors = []\<rparr>) \<and>
      metric_rows w' 4 \<noteq> [] \<and>
      list_all (\<lambda>row. total_revenue row = 0 \<and> rm_mrr row = 0) (metric_rows w' 4))"
proof -
  let ?response = "\<lparr>status = 200, statusText = ''OK'', body_text = [], body_parsed = NotParsed,
       body_json = Overview \<lparr>overview_object = ''overview_metrics'', metrics = []\<rparr>\<rparr>"
  have f: "http_fetch example_env
      (''https://api.revenuecat.com/v2/projects/'' @ ''proj_d'' @ ''/metrics/overview'')
      (''Bearer '' @ ''sk_d'') = Responded ?response"
    by (simp add: example_env_def example_fetch_def)
  have ok: "response_ok ?response"
    by (simp add: response_ok_def)
  have none: "\<forall>x \<in> set (metrics \<lparr>overview_object = ''overview_metrics'', metrics = []\<rparr>).
      metric_id x \<noteq> ''mrr'' \<and> metric_id x \<noteq> ''revenue''"
    by simp
  have pid: "''proj_d'' \<noteq> []"
    by simp
  have bj: "body_json ?response = Overview \<lparr>overview_object = ''overview_metrics'', metrics = []\<rparr>"
    by simp
  note c9 = C9_zero_reading [OF pid f ok bj none, of example_world]
  from c9 have zero: "fst (fetchRevenueCatMetrics example_env example_world ''sk_d'' ''proj_d'') =
      Inr \<lparr>mrr = 0, revenue = 0\<rparr>"
    by blast
  from c9 have step: "\<exists>w'. process_startup example_env s (example_world, r) =
        (w', r\<lparr>success := success r + 1\<rparr>) \<and>
      metric_rows w' (startup_id s) \<noteq> [] \<and>
      (\<forall>row \<in> set (metric_rows w' (startup_id s)). total_revenue row = 0 \<and> rm_mrr row = 0)"
    if "project_id s = Some ''proj_d''"
      "decryptApiKey example_env (encrypted_api_key s) = Inr ''sk_d''" for s r
    using that by simp
  from step [of "example_entry 4 ''sk_d'' (Some ''proj_d'')"
      "\<lparr>success = 0, failed = 0, deleted = 0, errors = []\<rparr>"] f zero
  show ?thesis
    by (simp add: decrypt_example_token list_all_iff)
qed

subsection \<open>A missing master secret, an empty datastore\<close>

lemma decrypt_no_key:
  assumes "getEncryptionKey e = Inl err"
  shows "decryptApiKey e token =
    Inl (new_Error (if length (split_on CHR '':'' token) \<noteq> 4
                    then ''Failed to decrypt API key: Invalid encrypted API key format''
                    else ''Failed to decrypt API key: ENCRYPTION_KEY is not set in environment variables''))"
  using assms getEncryptionKey_error [OF assms]
  by (simp add: decryptApiKey_def Let_def new_Error_def del: split_on.simps)

lemma encrypt_no_key:
  assumes "getEncryptionKey e = Inl err"
  shows "encryptApiKey e w P =
    (Inl (new_Error ''Failed to encrypt API key: ENCRYPTION_KEY is not set in environment variables''),
     w\<lparr>rng_calls := rng_calls w + 1\<rparr>)"
  using assms getEncryptionKey_error [OF assms]
  by (simp add: encryptApiKey_def randomBytes_def new_Error_def)

lemma missing_key_step:
  assumes "getEncryptionKey e = Inl err"
  shows "process_startup e s (w, r) =
    (w, r\<lparr>failed := failed r + 1,
          errors := errors r @ [\<lparr>ue_startup_id = startup_id s, ue_error = missing_key_error s\<rparr>]\<rparr>)"
proof (cases "truthy (project_id s)")
  case False
  then show ?thesis
    using step_missing(1) [OF False, of e w r] by (simp add: missing_key_error_def)
next
  case True
  from step_decrypt_fails(1) [OF True decrypt_no_key [OF assms], of w r] True
  show ?thesis
    by (simp add: missing_key_error_def new_Error_def del: split_on.simps)
qed

lemma missing_key_loop:
  assumes "getEncryptionKey e = Inl err"
  shows "update_all e es (w, r) =
    (w, r\<lparr>failed := failed r + length es,
          errors := errors r @
            map (\<lambda>s. \<lparr>ue_startup_id = startup_id s, ue_error = missing_key_error s\<rparr>) es\<rparr>)"
  by (induction es arbitrary: r) (simp_all add: missing_key_step [OF assms])

lemma missing_key_run:
  assumes "getEncryptionKey e = Inl err" and "authorized e authHeader"
    and "getStartupsWithApiKeys e w = Inr es" and "es \<noteq> []"
  shows "GET e w authHeader =
    ((200, UpdateCompleted ''Metrics update completed''
        \<lparr>success = 0, failed = length es, deleted = 0,
         errors = map (\<lambda>s. \<lparr>ue_startup_id = startup_id s, ue_error = missing_key_error s\<rparr>) es\<rparr>), w)"
  by (rule GET_run [OF assms(2,3,4)]) (simp add: missing_key_loop [OF assms(1)])

text \<open>
  Claim C5, as amended. Without the master secret every encryption and every decryption
  fails when it reaches the lookup of the key (the decryption after its check of the
  field count). The refresh job is not stopped by this: an authorized run over a
  non-empty list processes every startup, counts each as failed with its message, calls
  no adapter, writes and deletes nothing, and returns its report with status 200.
\<close>

theorem C5_missing_key_fails_each_entry:
  assumes "getEncryptionKey e = Inl err"
  shows "err = new_Error ''ENCRYPTION_KEY is not set in environment variables'' \<and>
    fst (encryptApiKey e w P) =
      Inl (new_Error ''Failed to encrypt API key: ENCRYPTION_KEY is not set in environment variables'') \<and>
    decryptApiKey e token =
      Inl (new_Error (if length (split_on CHR '':'' token) \<noteq> 4
                      then ''Failed to decrypt API key: Invalid encrypted API key format''
                      else ''Failed to decrypt API key: ENCRYPTION_KEY is not set in environment variables'')) \<and>
    (authorized e authHeader \<and> getStartupsWithApiKeys e w = Inr es \<and> es \<noteq> [] \<longrightarrow>
       GET e w authHeader =
         ((200, UpdateCompleted ''Metrics update completed''
             \<lparr>success = 0, failed = length es, deleted = 0,
              errors = map (\<lambda>s. \<lparr>ue_startup_id = startup_id s, ue_error = missing_key_error s\<rparr>) es\<rparr>),
          w))"
  using getEncryptionKey_error [OF assms] encrypt_no_key [OF assms, of w P]
    decrypt_no_key [OF assms, of token] missing_key_run [OF assms, of authHeader w es]
  by simp

lemma missing_key_error_example [simp]:
  "missing_key_error (example_entry i k (Some (c # cs))) =
     ''Failed to decrypt API key: ENCRYPTION_KEY is not set in environment variables''"
  by (simp add: missing_key_error_def example_token_def split_token del: split_on.simps)

theorem C5_missing_key_fails_each_entry_witness:
  "getEncryptionKey example_env_no_key =
     Inl (new_Error ''ENCRYPTION_KEY is not set in environment variables'') \<and>
   authorized example_env_no_key (Some ''Bearer c'') \<and>
   getStartupsWithApiKeys example_env_no_key example_world = Inr example_entries \<and>
   example_entries \<noteq> [] \<and>
   fst (encryptApiKey example_env_no_key example_world ''sk_a'') =
     Inl (new_Error ''Failed to encrypt API key: ENCRYPTION_KEY is not set in environment variables'') \<and>
   decryptApiKey example_env_no_key (example_token ''sk_a'') =
     Inl (new_Error ''Failed to decrypt API key: ENCRYPTION_KEY is not set in environment variables'') \<and>
   GET example_env_no_key example_world (Some ''Bearer c'') =
     ((200, UpdateCompleted ''Metrics update completed''
         \<lparr>success = 0, failed = length example_entries, deleted = 0,
          errors = map (\<lambda>s. \<lparr>ue_startup_id = startup_id s, ue_error = missing_key_error s\<rparr>)
            example_entries\<rparr>), example_world)"
proof -
  have ne: "example_entries \<noteq> []"
    by (simp add: example_entries_def)
  have four: "length (split_on CHR '':'' (example_token ''sk_a'')) = 4"
    by (simp add: example_token_def split_token del: split_on.simps)
  from C5_missing_key_fails_each_entry [OF no_key_example,
      of example_world "''sk_a''" "example_token ''sk_a''" "Some ''Bearer c''" example_entries]
  show ?thesis
    using no_key_example authorized_example_no_key entries_example_no_key ne four
    by simp
qed

text \<open>
  Claim C5 as stated (the job refuses to start, and does not go on to process its
  startups) fails on the example world when the master secret is missing: the run
  visits all three startups, records a failure for each and returns the completed report.
\<close>

theorem C5_refuses_to_start_counterexample:
  "getEncryptionKey example_env_no_key =
     Inl (new_Error ''ENCRYPTION_KEY is not set in environment variables'') \<and>
   getStartupsWithApiKeys example_env_no_key example_world = Inr example_entries \<and>
   GET example_env_no_key example_world (Some ''Bearer c'') =
     ((200, UpdateCompleted ''Metrics update completed''
         \<lparr>success = 0, failed = 3, deleted = 0,
          errors =
            [\<lparr>ue_startup_id = 1,
              ue_error = ''Failed to decrypt API key: ENCRYPTION_KEY is not set in environment variables''\<rparr>,
             \<lparr>ue_startup_id = 2,
              ue_error = ''Failed to decrypt API key: ENCRYPTION_KEY is not set in environment variables''\<rparr>,
             \<lparr>ue_startup_id = 3,
              ue_error = ''Failed to decrypt API key: ENCRYPTION_KEY is not set in environment variables''\<rparr>]\<rparr>),
      example_world)"
proof -
  have ne: "example_entries \<noteq> []"
    by (simp add: example_entries_def)
  from missing_key_run [OF no_key_example authorized_example_no_key entries_example_no_key ne]
  show ?thesis
    using no_key_example entries_example_no_key
    by (simp add: example_entries_def)
qed

text \<open>
  Claim C4, as amended. An authorized run that finds no startup with a credential returns
  early, with status 200 and the body \<^verbatim>\<open>{message: 'No startups to update', updated: 0}\<close>,
  which has no counters and no list of errors; the world is unchanged: no adapter call,
  no write, no deletion.
\<close>

theorem C4_no_startups:
  assumes "authorized e authHeader" and "getStartupsWithApiKeys e w = Inr []"
  shows "GET e w authHeader = ((200, NoStartups ''No startups to update'' 0), w)"
  using assms by (auto simp: GET_def authorized_def Let_def split: option.splits)

theorem C4_no_startups_witness:
  "authorized example_env (Some ''Bearer c'') \<and>
   getStartupsWithApiKeys example_env empty_world = Inr [] \<and>
   GET example_env empty_world (Some ''Bearer c'') =
     ((200, NoStartups ''No startups to update'' 0), empty_world)"
  using C4_no_startups [OF authorized_example entries_empty] authorized_example entries_empty
  by simp

lemma GET_empty_example:
  "GET example_env empty_world (Some ''Bearer c'') =
     ((200, NoStartups ''No startups to update'' 0), empty_world)"
  using authorized_example entries_empty
  by (auto simp: GET_def authorized_def Let_def split: option.splits)

text \<open>
  Claim C4 as stated (the run returns the report with all counters at zero and an empty
  list of errors) fails on the empty datastore: the answer is the early body, not a report.
\<close>

theorem C4_zero_report_counterexample:
  "getStartupsWithApiKeys example_env empty_world = Inr [] \<and>
   fst (GET example_env empty_world (Some ''Bearer c'')) =
     (200, NoStartups ''No startups to update'' 0) \<and>
   fst (GET example_env empty_world (Some ''Bearer c'')) \<noteq>
     (200, UpdateCompleted ''Metrics update completed''
        \<lparr>success = 0, failed = 0, deleted = 0, errors = []\<rparr>)"
  using entries_empty by (simp add: GET_empty_example)

subsection \<open>The registration flow\<close>

lemma taken_when_present:
  assumes "js_trim pid \<noteq> []"
    and "\<exists>row \<in> set (api_keys w). revenuecat_project_id row = Some (js_trim pid)"
  shows "isProjectIdTaken e w pid = Inr True \<or>
         (\<exists>m. supabase_error e (CountApiKeysByProjectId (js_trim pid)) = Some m \<and>
            isProjectIdTaken e w pid =
              Inl (new_Error (''Failed to validate project ID uniqueness: '' @ m)))"
proof -
  from assms(1) have pid: "pid \<noteq> []"
    by (auto simp: js_trim_def)
  from assms(2) have "filter (\<lambda>row. revenuecat_project_id row = Some (js_trim pid)) (api_keys w) \<noteq> []"
    by (simp add: filter_empty_conv)
  with pid assms(1) show ?thesis
    by (cases "supabase_error e (CountApiKeysByProjectId (js_trim pid))")
       (simp_all add: isProjectIdTaken_def)
qed

lemma validate_inputs_project_id:
  "validate_inputs e body = Inr input \<Longrightarrow>
     vi_projectId input = v_value (validateProjectId e (b_projectId body))"
  by (auto simp: validate_inputs_def Let_def split: if_splits)

lemma validate_inputs_status:
  "validate_inputs e body = Inl (code, response) \<Longrightarrow> code = 400"
  by (auto simp: validate_inputs_def Let_def split: if_splits)

lemma encrypt_draws:
  "rng_calls w < rng_calls (snd (encryptApiKey e w apiKey))"
  by (cases "getEncryptionKey e")
     (auto simp: encryptApiKey_def randomBytes_def Let_def split: prod.splits)

text \<open>
  Claim C8. A registration request whose project id (the validated value, the one that
  would be stored) is the project id of a stored credential is answered without any
  change of the world: no startup, credential or metrics row is created, no random bytes
  are drawn (every encryption draws some, so none took place), the adapter is not
  called, and so the stored project ids are as distinct as before. The status is 429, 400,
  409 or 500, never 201; when the rate limit, the validations and the datastore's answer
  to the uniqueness query let the request through to the check, it is 409 with the
  message that the project id is already registered.
\<close>

theorem C8_taken_project_id_rejected:
  assumes "json_body request = Inr body"
    and "pid = v_value (validateProjectId e (b_projectId body))"
    and "js_trim pid \<noteq> []"
    and "\<exists>row \<in> set (api_keys w). revenuecat_project_id row = Some (js_trim pid)"
  shows "\<exists>code response.
      POST e w request = ((code, response), w) \<and>
      (code = 429 \<or> code = 400 \<or> code = 409 \<or> code = 500) \<and>
      (allowed (rateLimit request) \<and> (\<exists>input. validate_inputs e body = Inr input) \<and>
         supabase_error e (CountApiKeysByProjectId (js_trim pid)) = None \<longrightarrow>
       code = 409 \<and>
       response = ErrorOnly (Some ''This RevenueCat project ID is already registered.'')) \<and>
      (\<forall>w0 apiKey. rng_calls w0 < rng_calls (snd (encryptApiKey e w0 apiKey)))"
proof (cases "allowed (rateLimit request)")
  case False
  then show ?thesis
    by (simp add: POST_def encrypt_draws)
next
  case True
  show ?thesis
  proof (cases "validate_inputs e body")
    case (Inl resp)
    obtain code response where resp: "resp = (code, response)"
      by (cases resp)
    with Inl validate_inputs_status [of e body code response] have "code = 400"
      by simp
    with True assms(1) Inl resp show ?thesis
      by (simp add: POST_def encrypt_draws)
  next
    case (Inr input)
    with assms(2) validate_inputs_project_id [OF Inr] have pid: "vi_projectId input = pid"
      by simp
    from taken_when_present [OF assms(3,4), of e] show ?thesis
    proof
      assume "isProjectIdTaken e w pid = Inr True"
      with True assms(1) Inr pid show ?thesis
        by (simp add: POST_def encrypt_draws)
    next
      assume "\<exists>m. supabase_error e (CountApiKeysByProjectId (js_trim pid)) = Some m \<and>
        isProjectIdTaken e w pid =
          Inl (new_Error (''Failed to validate project ID uniqueness: '' @ m))"
      with True assms(1) Inr pid show ?thesis
        by (auto simp: POST_def encrypt_draws add_failure_def Let_def)
    qed
  qed
qed

theorem C8_taken_project_id_rejected_witness:
  "json_body example_request = Inr example_body \<and>
   js_trim (v_value (validateProjectId example_env (b_projectId example_body))) = ''proj_a'' \<and>
   list_ex (\<lambda>row. revenuecat_project_id row = Some ''proj_a'') (api_keys example_world) \<and>
   POST example_env example_world example_request =
     ((409, ErrorOnly (Some ''This RevenueCat project ID is already registered.'')), example_world)"
proof -
  have body: "json_body example_request = Inr example_body"
    by (simp add: example_request_def)
  have pid: "v_value (validateProjectId example_env (b_projectId example_body)) = ''proj_a''"
    by (simp add: example_env_def example_body_def example_validator_def)
  have trim: "js_trim ''proj_a'' = ''proj_a''"
    by (simp add: js_trim_def is_space1_def is_space2_def is_space3_def)
  have ne: "js_trim ''proj_a'' \<noteq> []"
    by (simp add: trim)
  have row: "\<exists>row \<in> set (api_keys example_world). revenuecat_project_id row = Some (js_trim ''proj_a'')"
    by (simp add: trim example_world_def example_key_def)
  have ok: "allowed (rateLimit example_request)"
    by (simp add: example_request_def)
  have valid: "\<exists>input. validate_inputs example_env example_body = Inr input"
    by (simp add: validate_inputs_def example_env_def example_body_def example_validator_def)
  from C8_taken_project_id_rejected [OF body pid [symmetric] ne row]
  show ?thesis
    using body pid trim row ok valid
    by (auto simp: list_ex_iff)
qed

end
